theory Spec2Isabelle
  imports Main
begin

section \<open>Strings and the two path patterns of \<^verbatim>\<open>src/debugger.ts\<close>\<close>

text \<open>
  Paths are \<open>string\<close>s (byte lists, UTF-8). Every pattern of the source is ASCII, and a
  byte of a multi-byte UTF-8 sequence is never an ASCII byte, so matching on bytes finds
  the matches that JavaScript finds on UTF-16 code units.
\<close>

definition endsWith :: "string \<Rightarrow> string \<Rightarrow> bool" where
  \<comment> \<open>\<^verbatim>\<open>s.endsWith(suffix)\<close>\<close>
  "endsWith s suf = (length suf \<le> length s \<and> drop (length s - length suf) s = suf)"

fun startsWith :: "string \<Rightarrow> string \<Rightarrow> bool" where
  "startsWith s [] = True"
| "startsWith [] (p # ps) = False"
| "startsWith (c # cs) (p # ps) = (c = p \<and> startsWith cs ps)"

fun search_literal :: "string \<Rightarrow> string \<Rightarrow> bool" where
  \<comment> \<open>\<^verbatim>\<open>s.search(new RegExp(lit)) !== -1\<close> for a pattern \<open>lit\<close> without metacharacters
     (\<^verbatim>\<open>lldb-mi\<close>, \<^verbatim>\<open>gdb\<close>, \<^verbatim>\<open>lldb\<close>): \<open>lit\<close> occurs somewhere in \<open>s\<close>.\<close>
  "search_literal [] lit = (lit = [])"
| "search_literal (c # cs) lit = (startsWith (c # cs) lit \<or> search_literal cs lit)"

definition canonicalize :: "char \<Rightarrow> char" where
  \<comment> \<open>The \<^verbatim>\<open>i\<close> flag compares upper-cased characters; only ASCII letters matter here.\<close>
  "canonicalize c =
     (if (97::nat) \<le> of_char c \<and> of_char c \<le> (122::nat) then char_of (of_char c - (32::nat)) else c)"

fun match_ci :: "string \<Rightarrow> string \<Rightarrow> bool" where
  \<comment> \<open>the literal \<open>pat\<close> matches case-insensitively at the start of the text\<close>
  "match_ci [] s = True"
| "match_ci (p # ps) [] = False"
| "match_ci (p # ps) (c # cs) = (canonicalize p = canonicalize c \<and> match_ci ps cs)"

definition plus_count :: "string \<Rightarrow> nat" where
  \<comment> \<open>\<^verbatim>\<open>[\+]{0,2}\<close>, greedy: how many \<^verbatim>\<open>+\<close> the quantifier takes first\<close>
  "plus_count r = min 2 (length (takeWhile (\<lambda>c. c = CHR ''+'') r))"

text \<open>
  \<^verbatim>\<open>clang_compiler_regex = /(clang[\+]{0,2})+(?!-cl)/gi\<close>, tried at the start of a text;
  the result is the length of the match. The backtracking order is the one of the
  pattern: \<open>clang_group\<close> is one round of the group, \<open>clang_plus r k\<close> continues after
  \<^verbatim>\<open>clang\<close> with \<open>k\<close> plus signs taken: another round of the group first (the outer
  \<^verbatim>\<open>+\<close> is greedy), then the negative lookahead \<^verbatim>\<open>(?!-cl)\<close>, then one plus sign less.
\<close>

function clang_group :: "string \<Rightarrow> nat option"
  and clang_plus :: "string \<Rightarrow> nat \<Rightarrow> nat option" where
  "clang_group s =
     (if match_ci ''clang'' s
      then map_option (\<lambda>n. 5 + n) (clang_plus (drop 5 s) (plus_count (drop 5 s)))
      else None)"
| "clang_plus r k =
     (case clang_group (drop k r) of
        Some n \<Rightarrow> Some (k + n)
      | None \<Rightarrow>
          if \<not> match_ci ''-cl'' (drop k r) then Some k
          else if k = 0 then None
          else clang_plus r (k - 1))"
  by pat_completeness auto
termination
proof (relation "measure (\<lambda>x. case x of Inl s \<Rightarrow> 4 * length s
                                        | Inr (r, k) \<Rightarrow> 4 * length r + k + 1)", goal_cases)
  case 1
  show ?case by simp
next
  case (2 s)
  have "match_ci pat t \<Longrightarrow> length pat \<le> length t" for pat t
    by (induction pat t rule: match_ci.induct) auto
  from this [of "''clang''" s] and 2 have "5 \<le> length s" by simp
  moreover have "plus_count (drop 5 s) \<le> 2" by (simp add: plus_count_def)
  ultimately show ?case by simp
next
  case (3 r k)
  show ?case by simp
next
  case (4 r k)
  then show ?case by simp
qed

definition clang_compiler_regex :: "string \<Rightarrow> nat option" where
  "clang_compiler_regex s = clang_group s"

definition no_separator_to_end :: "string \<Rightarrow> bool" where
  \<comment> \<open>the lookahead \<^verbatim>\<open>(?=[^\/\\]*$)\<close>: no slash and no backslash up to the end\<close>
  "no_separator_to_end s = list_all (\<lambda>c. c \<noteq> CHR ''/'' \<and> c \<noteq> CHR 0x5C) s"

definition gcc_compiler_regex :: "string \<Rightarrow> nat option" where
  \<comment> \<open>\<^verbatim>\<open>/([cg]\+\+|g?cc)(?=[^\/\\]*$)/gi\<close> at the start of a text: the alternatives in
     their order (\<^verbatim>\<open>[cg]\+\+\<close>, then \<^verbatim>\<open>g?cc\<close> with and without the \<^verbatim>\<open>g\<close>), the first
     one that the lookahead accepts\<close>
  "gcc_compiler_regex s =
     find (\<lambda>n. no_separator_to_end (drop n s))
       ((if match_ci ''c++'' s \<or> match_ci ''g++'' s then [3] else []) @
        (if match_ci ''gcc'' s then [3] else []) @
        (if match_ci ''cc'' s then [2] else []))"

fun replace_from :: "(string \<Rightarrow> nat option) \<Rightarrow> string \<Rightarrow> nat \<Rightarrow> string \<Rightarrow> string" where
  \<comment> \<open>the scan of \<^verbatim>\<open>String.prototype.replace\<close> with a global pattern: the counter is the
     number of characters of the current match still to skip. Both patterns match at
     least two characters, so no match is empty.\<close>
  "replace_from m repl (Suc k) (c # cs) = replace_from m repl k cs"
| "replace_from m repl 0 (c # cs) =
     (case m (c # cs) of
        Some n \<Rightarrow> repl @ replace_from m repl (n - 1) cs
      | None \<Rightarrow> c # replace_from m repl 0 cs)"
| "replace_from m repl k [] = []"

definition replace :: "string \<Rightarrow> (string \<Rightarrow> nat option) \<Rightarrow> string \<Rightarrow> string" where
  \<comment> \<open>\<^verbatim>\<open>s.replace(regex, repl)\<close>\<close>
  "replace s regex repl = replace_from regex repl 0 s"


section \<open>Data model\<close>

text \<open>
  Modelled from the spec: \<open>CacheEntry\<close> and \<open>CMakeCache\<close> (module \<^verbatim>\<open>@cmt/cache\<close>) and
  \<open>ExecutableTarget\<close> (module \<^verbatim>\<open>@cmt/api\<close>) are declared outside \<^verbatim>\<open>src/debugger.ts\<close>. The
  cache is its accessor \<^verbatim>\<open>get(key) -> {key, value} | null\<close>, of which the resolver reads
  \<^verbatim>\<open>entry.value\<close>; a target is \<^verbatim>\<open>{name, path}\<close>.
\<close>

record CacheEntry =
  entry_key :: string
  entry_value :: string

type_synonym CMakeCache = "string \<Rightarrow> CacheEntry option"

record ExecutableTarget =
  target_name :: string
  target_path :: string

datatype MIModes = lldb | gdb

fun MIModes_value :: "MIModes \<Rightarrow> string" where
  "MIModes_value lldb = ''lldb''"
| "MIModes_value gdb = ''gdb''"

record SetupCommand =
  setup_text :: "string option"
  setup_description :: "string option"
  setup_ignoreFailures :: "bool option"

text \<open>
  \<open>VSCodeDebugConfiguration\<close>: the required fields and those optional fields of
  \<open>CppDebugConfiguration\<close> that the module ever sets. \<open>cwd\<close> and \<open>args\<close> are set by all
  three builders; the other three are present (\<open>Some\<close>) or absent (\<open>None\<close>).
\<close>

record VSCodeDebugConfiguration =
  type :: string
  name :: string
  request :: string
  cwd :: string
  args :: "string list"
  MIMode :: "MIModes option"
  miDebuggerPath :: "string option"
  setupCommands :: "SetupCommand list option"
  program :: string

text \<open>
  What the module takes from outside: the process primitive (\<^verbatim>\<open>proc.execute\<close>, here the
  exit code \<^verbatim>\<open>retc\<close> of a command with its arguments), \<^verbatim>\<open>fs.exists\<close>, the installation
  path of an editor extension (\<^verbatim>\<open>vscode.extensions.getExtension(id)\<close>), \<^verbatim>\<open>process.platform\<close>,
  the functions of Node's \<^verbatim>\<open>path\<close> module and \<^verbatim>\<open>localize\<close> (message key and arguments;
  the English default text goes with the key). They are parameters: every theorem below
  holds for every host. The file system and the installed programs do not change during
  one resolution, so each of them is a function.
\<close>

record host =
  execute :: "string \<Rightarrow> string list \<Rightarrow> int"
  fs_exists :: "string \<Rightarrow> bool"
  getExtension :: "string \<Rightarrow> string option"
  process_platform :: string
  path_isAbsolute :: "string \<Rightarrow> bool"
  path_dirname :: "string \<Rightarrow> string"
  path_join :: "string list \<Rightarrow> string"
  localize :: "string \<Rightarrow> string list \<Rightarrow> string"

text \<open>
  The effects a caller can observe besides the result: the commands run by the probe and
  the warnings written to the log, in their order. A thrown \<^verbatim>\<open>Error\<close> is the left
  summand of the result.
\<close>

datatype event = Execute string "string list" | Warning string

datatype error = Error string

type_synonym 'a outcome = "(error + 'a) \<times> event list"

section \<open>The module\<close>

definition checkDebugger :: "host \<Rightarrow> string \<Rightarrow> event list \<Rightarrow> bool \<times> event list" where
  "checkDebugger h debuggerPath log =
     (execute h debuggerPath [''--version''] = 0, log @ [Execute debuggerPath [''--version'']])"

definition createGDBDebugConfiguration ::
  "host \<Rightarrow> string \<Rightarrow> ExecutableTarget \<Rightarrow> event list \<Rightarrow> VSCodeDebugConfiguration outcome" where
  "createGDBDebugConfiguration h debuggerPath0 target log =
     (let (ok, log1) = checkDebugger h debuggerPath0 log;
          (found, debuggerPath, log2) =
            (if \<not> ok
             then (let (ok', log') = checkDebugger h ''gdb'' log1 in (ok', ''gdb'', log'))
             else (True, debuggerPath0, log1))
      in if \<not> found then (Inl (Error (localize h ''gdb.not.found'' [debuggerPath])), log2)
         else (Inr \<lparr> type = ''cppdbg'',
                     name = ''Debug '' @ target_name target,
                     request = ''launch'',
                     cwd = path_dirname h (target_path target),
                     args = [],
                     MIMode = Some gdb,
                     miDebuggerPath = Some debuggerPath,
                     setupCommands = Some [\<lparr> setup_text = Some ''-enable-pretty-printing'',
                                              setup_description = Some (localize h ''enable.pretty.printing'' []),
                                              setup_ignoreFailures = Some True \<rparr>],
                     program = target_path target \<rparr>, log2))"

definition createLLDBDebugConfiguration ::
  "host \<Rightarrow> string \<Rightarrow> ExecutableTarget \<Rightarrow> event list \<Rightarrow> VSCodeDebugConfiguration outcome" where
  "createLLDBDebugConfiguration h debuggerPath target log =
     (let (ok, log1) = checkDebugger h debuggerPath log
      in if \<not> ok then (Inl (Error (localize h ''gdb.not.found'' [debuggerPath])), log1)
         else (Inr \<lparr> type = ''cppdbg'',
                     name = ''Debug '' @ target_name target,
                     request = ''launch'',
                     cwd = path_dirname h (target_path target),
                     args = [],
                     MIMode = Some lldb,
                     miDebuggerPath = Some debuggerPath,
                     setupCommands = None,
                     program = target_path target \<rparr>, log1))"

definition createMSVCDebugConfiguration :: "host \<Rightarrow> ExecutableTarget \<Rightarrow> VSCodeDebugConfiguration" where
  "createMSVCDebugConfiguration h target =
     \<lparr> type = ''cppvsdbg'',
       name = ''Debug '' @ target_name target,
       request = ''launch'',
       cwd = path_dirname h (target_path target),
       args = [],
       MIMode = None,
       miDebuggerPath = None,
       setupCommands = None,
       program = target_path target \<rparr>"

record DebuggerGenerator =
  miMode :: MIModes
  createConfig :: "string \<Rightarrow> ExecutableTarget \<Rightarrow> event list \<Rightarrow> VSCodeDebugConfiguration outcome"

fun DEBUG_GEN :: "host \<Rightarrow> MIModes \<Rightarrow> DebuggerGenerator" where
  "DEBUG_GEN h gdb = \<lparr> miMode = gdb, createConfig = createGDBDebugConfiguration h \<rparr>"
| "DEBUG_GEN h lldb = \<lparr> miMode = lldb, createConfig = createLLDBDebugConfiguration h \<rparr>"

fun search_languages :: "CMakeCache \<Rightarrow> string list \<Rightarrow> string option" where
  "search_languages cache [] = None"
| "search_languages cache (lang # languages) =
     (case cache (''CMAKE_'' @ lang @ ''_COMPILER'') of
        None \<Rightarrow> search_languages cache languages
      | Some entry \<Rightarrow> Some (entry_value entry))"

definition searchForCompilerPathInCache :: "CMakeCache \<Rightarrow> string option" where
  "searchForCompilerPathInCache cache = search_languages cache [''CXX'', ''C'', ''CUDA'']"

text \<open>
  \<open>getDebugConfigurationFromCache\<close> returns from several places. A step of it gives
  \<open>Some r\<close> when the function returns (or throws) \<open>r\<close> there, and \<open>None\<close> when control
  goes on to the next statement.
\<close>

type_synonym step = "(error + VSCodeDebugConfiguration option) option \<times> event list"

definition returned :: "VSCodeDebugConfiguration outcome \<Rightarrow> step" where
  "returned r = (Some (map_sum id Some (fst r)), snd r)"

definition lldb_mi_step ::
  "host \<Rightarrow> ExecutableTarget \<Rightarrow> MIModes option \<Rightarrow> string \<Rightarrow> event list \<Rightarrow> step" where
  \<comment> \<open>\<^verbatim>\<open>// 1. LLDB-MI\<close>, 1a in the compiler path, 1b installed by CppTools\<close>
  "lldb_mi_step h target modeOverride compiler_path log =
     (let mi_debugger_path = replace compiler_path clang_compiler_regex ''lldb-mi'' in
      if modeOverride \<noteq> Some gdb \<and> search_literal mi_debugger_path ''lldb-mi'' then
        (let cpptoolsDebuggerPath =
               map_option (\<lambda>extensionPath.
                   path_join h [extensionPath, ''debugAdapters'', ''lldb-mi'', ''bin'', ''lldb-mi''])
                 (getExtension h ''ms-vscode.cpptools'');
             (ok_a, log_a) = checkDebugger h mi_debugger_path log
         in if ok_a then returned (createLLDBDebugConfiguration h mi_debugger_path target log_a)
            else (case cpptoolsDebuggerPath of
                    None \<Rightarrow> (None, log_a)
                  | Some p \<Rightarrow>
                      if p = [] then (None, log_a)
                      else (let (ok_b, log_b) = checkDebugger h p log_a
                            in if ok_b then returned (createLLDBDebugConfiguration h p target log_b)
                               else (None, log_b))))
      else (None, log))"

definition gdb_step ::
  "host \<Rightarrow> ExecutableTarget \<Rightarrow> MIModes option \<Rightarrow> string \<Rightarrow> event list \<Rightarrow> step" where
  \<comment> \<open>\<^verbatim>\<open>// 2. gdb in the compiler path\<close>\<close>
  "gdb_step h target modeOverride compiler_path log =
     (let mi_debugger_path = replace compiler_path clang_compiler_regex ''gdb'' in
      if modeOverride \<noteq> Some lldb \<and> search_literal mi_debugger_path ''gdb'' then
        (let (ok, log1) = checkDebugger h mi_debugger_path log
         in if ok then returned (createGDBDebugConfiguration h mi_debugger_path target log1)
            else (None, log1))
      else (None, log))"

definition lldb_step ::
  "host \<Rightarrow> ExecutableTarget \<Rightarrow> MIModes option \<Rightarrow> string \<Rightarrow> event list \<Rightarrow> step" where
  \<comment> \<open>\<^verbatim>\<open>// 3. lldb in the compiler path\<close>\<close>
  "lldb_step h target modeOverride compiler_path log =
     (let mi_debugger_path = replace compiler_path clang_compiler_regex ''lldb'' in
      if modeOverride \<noteq> Some gdb \<and> search_literal mi_debugger_path ''lldb'' then
        (let (ok, log1) = checkDebugger h mi_debugger_path log
         in if ok then returned (createLLDBDebugConfiguration h mi_debugger_path target log1)
            else (None, log1))
      else (None, log))"

definition gdb_debugger_path :: "host \<Rightarrow> DebuggerGenerator \<Rightarrow> string \<Rightarrow> string" where
  \<comment> \<open>the variable \<^verbatim>\<open>gdb_debugger_path\<close> of lines 219 to 226\<close>
  "gdb_debugger_path h description compiler_path =
     (let p = replace compiler_path gcc_compiler_regex (MIModes_value (miMode description)) in
      if path_isAbsolute h p \<and> \<not> fs_exists h p then
        (let q = path_join h [path_dirname h compiler_path, MIModes_value (miMode description)]
         in if process_platform h = ''win32'' then q @ ''.exe'' else q)
      else p)"

definition generic_fallback ::
  "host \<Rightarrow> ExecutableTarget \<Rightarrow> DebuggerGenerator \<Rightarrow> string \<Rightarrow> event list
     \<Rightarrow> VSCodeDebugConfiguration option outcome" where
  \<comment> \<open>lines 219 to 233\<close>
  "generic_fallback h target description compiler_path log =
     (let p = gdb_debugger_path h description compiler_path in
      if search_literal p (MIModes_value (miMode description))
      then (let r = createConfig description p target log in (map_sum id Some (fst r), snd r))
      else (Inr None,
            log @ [Warning (localize h ''unable.to.determine.debugger.for.compiler'' [compiler_path])]))"

definition look_for_debugger ::
  "host \<Rightarrow> ExecutableTarget \<Rightarrow> MIModes option \<Rightarrow> DebuggerGenerator \<Rightarrow> string \<Rightarrow> event list
     \<Rightarrow> VSCodeDebugConfiguration option outcome" where
  \<comment> \<open>lines 189 to 233, \<^verbatim>\<open>// Look for a debugger, in the following order:\<close>\<close>
  "look_for_debugger h target modeOverride description compiler_path log =
     (case lldb_mi_step h target modeOverride compiler_path log of
        (Some r, log2) \<Rightarrow> (r, log2)
      | (None, log2) \<Rightarrow>
          (case gdb_step h target modeOverride compiler_path log2 of
             (Some r, log3) \<Rightarrow> (r, log3)
           | (None, log3) \<Rightarrow>
               (case lldb_step h target modeOverride compiler_path log3 of
                  (Some r, log4) \<Rightarrow> (r, log4)
                | (None, log4) \<Rightarrow>
                    generic_fallback h target description compiler_path log4)))"

definition is_msvc_linker :: "CMakeCache \<Rightarrow> bool" where
  \<comment> \<open>lines 159 to 163: the entry is there and its value ends in one of the two names\<close>
  "is_msvc_linker cache =
     (case cache ''CMAKE_LINKER'' of
        None \<Rightarrow> False
      | Some entry \<Rightarrow>
          (let linker = entry_value entry
           in endsWith linker ''link.exe'' \<or> endsWith linker ''ld.lld.exe''))"

definition debugger_name :: "string \<Rightarrow> MIModes option \<Rightarrow> MIModes" where
  \<comment> \<open>\<^verbatim>\<open>modeOverride || (platform === 'darwin' ? 'lldb' : 'gdb')\<close>\<close>
  "debugger_name platform modeOverride =
     (case modeOverride of
        Some m \<Rightarrow> m
      | None \<Rightarrow> if platform = ''darwin'' then lldb else gdb)"

definition getDebugConfigurationFromCache ::
  "host \<Rightarrow> CMakeCache \<Rightarrow> ExecutableTarget \<Rightarrow> string \<Rightarrow> MIModes option \<Rightarrow> string option
     \<Rightarrow> event list \<Rightarrow> VSCodeDebugConfiguration option outcome" where
  "getDebugConfigurationFromCache h cache target platform modeOverride debuggerPathOverride log =
     (if is_msvc_linker cache
      then (Inr (Some (createMSVCDebugConfiguration h target)), log)
      else
        let description = DEBUG_GEN h (debugger_name platform modeOverride);
            (override_result, log1) =
              (case debuggerPathOverride of
                 None \<Rightarrow> (None, log)
               | Some p \<Rightarrow>
                   if p = [] then (None, log)
                   else if path_isAbsolute h p \<and> fs_exists h p
                   then returned (createConfig description p target log)
                   else (None, log @ [Warning (localize h ''invalid.miDebuggerPath.override''
                                                 [''miDebuggerPath'', ''cmake.debugConfig'', p])]))
        in case override_result of
             Some r \<Rightarrow> (r, log1)
           | None \<Rightarrow>
               (case searchForCompilerPathInCache cache of
                  None \<Rightarrow> (Inl (Error (localize h ''no.compiler.found.in.cache'' [])), log1)
                | Some compiler_path \<Rightarrow>
                    if endsWith compiler_path ''cl.exe''
                    then (Inr (Some (createMSVCDebugConfiguration h target)), log1)
                    else look_for_debugger h target modeOverride description compiler_path log1))"


section \<open>A POSIX host for worked examples\<close>

text \<open>
  Node's \<^verbatim>\<open>path.posix\<close> functions \<^verbatim>\<open>isAbsolute\<close>, \<^verbatim>\<open>dirname\<close>, \<^verbatim>\<open>normalize\<close> and \<^verbatim>\<open>join\<close>,
  to evaluate the resolver on concrete inputs. \<open>posix_host working files\<close> is a Linux
  machine on which exactly the commands in \<open>working\<close> run and exit with 0 (the shell
  answers 127 for the others) and exactly the paths in \<open>files\<close> exist.
\<close>

definition posix_isAbsolute :: "string \<Rightarrow> bool" where
  "posix_isAbsolute p = (p \<noteq> [] \<and> hd p = CHR ''/'')"

definition posix_dirname :: "string \<Rightarrow> string" where
  "posix_dirname p =
     (if p = [] then ''.''
      else
        let hasRoot = (hd p = CHR ''/'');
            r = dropWhile (\<lambda>c. c \<noteq> CHR ''/'') (dropWhile (\<lambda>c. c = CHR ''/'') (rev (tl p)));
            e = length r
        in if e = 0 then (if hasRoot then ''/'' else ''.'')
           else if hasRoot \<and> e = 1 then ''//''
           else take e p)"

fun split_slash :: "string \<Rightarrow> string list" where
  "split_slash [] = [[]]"
| "split_slash (c # cs) =
     (if c = CHR ''/'' then [] # split_slash cs
      else (case split_slash cs of
              w # ws \<Rightarrow> (c # w) # ws
            | [] \<Rightarrow> [[c]]))"

fun join_slash :: "string list \<Rightarrow> string" where
  "join_slash [] = []"
| "join_slash [x] = x"
| "join_slash (x # y # ys) = x @ ''/'' @ join_slash (y # ys)"

definition normalize_segment :: "bool \<Rightarrow> string list \<Rightarrow> string \<Rightarrow> string list" where
  \<comment> \<open>one segment of \<^verbatim>\<open>normalizeString\<close>; the segments kept so far are in reverse order\<close>
  "normalize_segment allowAboveRoot res seg =
     (if seg = [] \<or> seg = ''.'' then res
      else if seg = ''..'' then
        (case res of
           t # ts \<Rightarrow> if t \<noteq> ''..'' then ts else if allowAboveRoot then ''..'' # res else res
         | [] \<Rightarrow> if allowAboveRoot then [''..''] else [])
      else seg # res)"

definition posix_normalize :: "string \<Rightarrow> string" where
  "posix_normalize p =
     (if p = [] then ''.''
      else
        let isAbsolute = (hd p = CHR ''/'');
            trailingSeparator = (last p = CHR ''/'');
            q = join_slash (rev (foldl (normalize_segment (\<not> isAbsolute)) [] (split_slash p)))
        in if q = [] then (if isAbsolute then ''/'' else if trailingSeparator then ''./'' else ''.'')
           else (if isAbsolute then ''/'' else []) @ q @ (if trailingSeparator then ''/'' else []))"

definition posix_join :: "string list \<Rightarrow> string" where
  "posix_join parts =
     (let joined = join_slash (filter (\<lambda>a. a \<noteq> []) parts)
      in if joined = [] then ''.'' else posix_normalize joined)"

definition posix_host :: "string list \<Rightarrow> string list \<Rightarrow> host" where
  "posix_host working files =
     \<lparr> execute = (\<lambda>command arguments. if command \<in> set working then 0 else 127),
       fs_exists = (\<lambda>p. p \<in> set files),
       getExtension = (\<lambda>extensionId. None),
       process_platform = ''linux'',
       path_isAbsolute = posix_isAbsolute,
       path_dirname = posix_dirname,
       path_join = posix_join,
       localize = (\<lambda>key arguments. key) \<rparr>"

definition cache_of :: "(string \<times> string) list \<Rightarrow> CMakeCache" where
  \<comment> \<open>the cache holding these variables\<close>
  "cache_of vars key = map_option (\<lambda>v. \<lparr> entry_key = key, entry_value = v \<rparr>) (map_of vars key)"

definition hello :: ExecutableTarget where
  "hello = \<lparr> target_name = ''hello'', target_path = ''/work/build/hello'' \<rparr>"


section \<open>Observing a run\<close>

primrec probed :: "event list \<Rightarrow> string list" where
  \<comment> \<open>the commands that have been run, in their order\<close>
  "probed [] = []"
| "probed (e # es) = (case e of Execute command arguments \<Rightarrow> command # probed es
                               | Warning w \<Rightarrow> probed es)"

definition derived_candidates :: "host \<Rightarrow> MIModes option \<Rightarrow> string \<Rightarrow> string list" where
  \<comment> \<open>the paths that steps 1 to 3 probe, in their order, when every probe fails: each
     derivation under the condition of its step\<close>
  "derived_candidates h modeOverride compiler_path =
     (let lldb_mi_path = replace compiler_path clang_compiler_regex ''lldb-mi'';
          gdb_path = replace compiler_path clang_compiler_regex ''gdb'';
          lldb_path = replace compiler_path clang_compiler_regex ''lldb''
      in (if modeOverride \<noteq> Some gdb \<and> search_literal lldb_mi_path ''lldb-mi''
          then lldb_mi_path #
               (case getExtension h ''ms-vscode.cpptools'' of
                  None \<Rightarrow> []
                | Some extensionPath \<Rightarrow>
                    (let p = path_join h [extensionPath, ''debugAdapters'', ''lldb-mi'', ''bin'', ''lldb-mi'']
                     in if p = [] then [] else [p]))
          else []) @
         (if modeOverride \<noteq> Some lldb \<and> search_literal gdb_path ''gdb'' then [gdb_path] else []) @
         (if modeOverride \<noteq> Some gdb \<and> search_literal lldb_path ''lldb'' then [lldb_path] else []))"

definition cpptools_lldb_mi :: "host \<Rightarrow> string set" where
  \<comment> \<open>\<^verbatim>\<open>cpptoolsDebuggerPath\<close>, when the CppTools extension is installed\<close>
  "cpptools_lldb_mi h =
     (case getExtension h ''ms-vscode.cpptools'' of
        None \<Rightarrow> {}
      | Some e \<Rightarrow> {path_join h [e, ''debugAdapters'', ''lldb-mi'', ''bin'', ''lldb-mi'']})"

definition validated :: "host \<Rightarrow> MIModes \<Rightarrow> (error + VSCodeDebugConfiguration option) \<Rightarrow> bool" where
  \<comment> \<open>the result is a configuration of this family whose debugger path answers the probe\<close>
  "validated h fam x =
     (case x of
        Inr (Some cfg) \<Rightarrow>
          MIMode cfg = Some fam \<and>
          (case miDebuggerPath cfg of
             Some p \<Rightarrow> execute h p [''--version''] = 0
           | None \<Rightarrow> False)
      | _ \<Rightarrow> False)"

definition admitted :: "host \<Rightarrow> MIModes option \<Rightarrow> MIModes \<Rightarrow> string \<Rightarrow> string set" where
  \<comment> \<open>the commands that the search for a debugger may run for a compiler path: the
     derivations of the steps that the mode override leaves, the path of the generic
     fallback for the preferred family and, for \<^verbatim>\<open>gdb\<close>, the bare command\<close>
  "admitted h m fam cp =
     (if m \<noteq> Some gdb
      then insert (replace cp clang_compiler_regex ''lldb-mi'')
             (insert (replace cp clang_compiler_regex ''lldb'') (cpptools_lldb_mi h))
      else {})
     \<union> (if m \<noteq> Some lldb then {replace cp clang_compiler_regex ''gdb''} else {})
     \<union> {gdb_debugger_path h (DEBUG_GEN h fam) cp}
     \<union> (if fam = gdb then {''gdb''} else {})"

definition probes :: "string list \<Rightarrow> event list" where
  "probes commands = map (\<lambda>c. Execute c [''--version'']) commands"

section \<open>The linker check\<close>

text \<open>
  Claim C1. When the cache has a \<^verbatim>\<open>CMAKE_LINKER\<close> entry whose value ends in
  \<^verbatim>\<open>link.exe\<close> or \<^verbatim>\<open>ld.lld.exe\<close>, the resolver returns the MSVC launch configuration
  (type \<^verbatim>\<open>cppvsdbg\<close>, name \<^verbatim>\<open>Debug <target.name>\<close>, request \<^verbatim>\<open>launch\<close>, cwd the directory
  of the target, no arguments, program the target's path), whatever the platform, the
  mode override and the debugger path override are. Nothing else happens: the log of
  probes and warnings is returned as it was, so neither the override nor the compiler
  lookup nor any candidate has been looked at.
\<close>

theorem msvc_linker_short_circuits:
  assumes "cache ''CMAKE_LINKER'' = Some entry"
    and "endsWith (entry_value entry) ''link.exe'' \<or> endsWith (entry_value entry) ''ld.lld.exe''"
  shows "getDebugConfigurationFromCache h cache target platform modeOverride debuggerPathOverride log =
           (Inr (Some \<lparr> type = ''cppvsdbg'',
                        name = ''Debug '' @ target_name target,
                        request = ''launch'',
                        cwd = path_dirname h (target_path target),
                        args = [],
                        MIMode = None,
                        miDebuggerPath = None,
                        setupCommands = None,
                        program = target_path target \<rparr>), log)"
  using assms
  by (simp add: getDebugConfigurationFromCache_def is_msvc_linker_def
      createMSVCDebugConfiguration_def)

text \<open>
  An instance: a cache with an MSVC linker and a GCC compiler, on a machine with a working
  \<^verbatim>\<open>/usr/bin/gdb\<close>, asked for \<^verbatim>\<open>gdb\<close> with that path as the override.
\<close>

theorem msvc_linker_short_circuits_witness:
  "getDebugConfigurationFromCache (posix_host [''/usr/bin/gdb'', ''gdb''] [''/usr/bin/gdb''])
       (cache_of [(''CMAKE_LINKER'', ''C:/VS/bin/link.exe''), (''CMAKE_CXX_COMPILER'', ''/usr/bin/g++'')])
       hello ''linux'' (Some gdb) (Some ''/usr/bin/gdb'') []
     = (Inr (Some \<lparr> type = ''cppvsdbg'', name = ''Debug hello'', request = ''launch'',
                     cwd = ''/work/build'', args = [], MIMode = None, miDebuggerPath = None,
                     setupCommands = None, program = ''/work/build/hello'' \<rparr>), [])"
proof -
  let ?cache = "cache_of [(''CMAKE_LINKER'', ''C:/VS/bin/link.exe''),
                          (''CMAKE_CXX_COMPILER'', ''/usr/bin/g++'')]"
  let ?entry = "\<lparr> entry_key = ''CMAKE_LINKER'', entry_value = ''C:/VS/bin/link.exe'' \<rparr>"
  let ?h = "posix_host [''/usr/bin/gdb'', ''gdb''] [''/usr/bin/gdb'']"
  have present: "?cache ''CMAKE_LINKER'' = Some ?entry"
    by (simp add: cache_of_def)
  have msvc: "endsWith (entry_value ?entry) ''link.exe'' \<or> endsWith (entry_value ?entry) ''ld.lld.exe''"
    by (simp add: endsWith_def)
  have dir: "path_dirname ?h (target_path hello) = ''/work/build''"
    by (simp add: posix_host_def hello_def posix_dirname_def)
  show ?thesis
    using msvc_linker_short_circuits [where cache = ?cache and entry = ?entry and h = ?h
        and target = hello and platform = "''linux''" and modeOverride = "Some gdb"
        and debuggerPathOverride = "Some ''/usr/bin/gdb''" and log = "[]"] present msvc dir
    by (simp add: hello_def)
qed

section \<open>Compiler lookup\<close>

text \<open>
  Claim C9. The compiler lookup asks the cache for \<^verbatim>\<open>CMAKE_CXX_COMPILER\<close>,
  \<^verbatim>\<open>CMAKE_C_COMPILER\<close> and \<^verbatim>\<open>CMAKE_CUDA_COMPILER\<close> in this order and gives the value of
  the first entry that is there. The resolver uses the C++ entry whenever there is one:
  two caches with the same C++ entry and the same linker entry resolve alike, whatever
  else they hold, and past the linker check a call without path override is the MSVC
  configuration when the value of the C++ entry ends in \<^verbatim>\<open>cl.exe\<close> and otherwise the
  search for a debugger run on the value of the C++ entry.
\<close>

theorem compiler_lookup_order:
  "searchForCompilerPathInCache cache =
     (case cache ''CMAKE_CXX_COMPILER'' of
        Some e \<Rightarrow> Some (entry_value e)
      | None \<Rightarrow>
          (case cache ''CMAKE_C_COMPILER'' of
             Some e \<Rightarrow> Some (entry_value e)
           | None \<Rightarrow>
               (case cache ''CMAKE_CUDA_COMPILER'' of
                  Some e \<Rightarrow> Some (entry_value e)
                | None \<Rightarrow> None)))
   \<and> (\<forall>e cache'. cache ''CMAKE_CXX_COMPILER'' = Some e \<and> cache' ''CMAKE_CXX_COMPILER'' = Some e
          \<and> cache' ''CMAKE_LINKER'' = cache ''CMAKE_LINKER''
        \<longrightarrow> getDebugConfigurationFromCache h cache target platform modeOverride debuggerPathOverride log
          = getDebugConfigurationFromCache h cache' target platform modeOverride debuggerPathOverride log)
   \<and> (\<forall>e. cache ''CMAKE_CXX_COMPILER'' = Some e \<and> \<not> is_msvc_linker cache
        \<longrightarrow> getDebugConfigurationFromCache h cache target platform modeOverride None log
          = (if endsWith (entry_value e) ''cl.exe''
             then (Inr (Some (createMSVCDebugConfiguration h target)), log)
             else look_for_debugger h target modeOverride
                    (DEBUG_GEN h (debugger_name platform modeOverride)) (entry_value e) log))"
proof (intro conjI allI impI)
  show "searchForCompilerPathInCache cache =
     (case cache ''CMAKE_CXX_COMPILER'' of
        Some e \<Rightarrow> Some (entry_value e)
      | None \<Rightarrow>
          (case cache ''CMAKE_C_COMPILER'' of
             Some e \<Rightarrow> Some (entry_value e)
           | None \<Rightarrow>
               (case cache ''CMAKE_CUDA_COMPILER'' of
                  Some e \<Rightarrow> Some (entry_value e)
                | None \<Rightarrow> None)))"
    by (simp add: searchForCompilerPathInCache_def split: option.splits)
next
  fix e cache'
  assume a: "cache ''CMAKE_CXX_COMPILER'' = Some e \<and> cache' ''CMAKE_CXX_COMPILER'' = Some e
          \<and> cache' ''CMAKE_LINKER'' = cache ''CMAKE_LINKER''"
  then have s: "searchForCompilerPathInCache cache = searchForCompilerPathInCache cache'"
    by (simp add: searchForCompilerPathInCache_def)
  from a have m: "is_msvc_linker cache = is_msvc_linker cache'"
    by (simp add: is_msvc_linker_def)
  show "getDebugConfigurationFromCache h cache target platform modeOverride debuggerPathOverride log
          = getDebugConfigurationFromCache h cache' target platform modeOverride debuggerPathOverride log"
    unfolding getDebugConfigurationFromCache_def s m ..
next
  fix e
  assume a: "cache ''CMAKE_CXX_COMPILER'' = Some e \<and> \<not> is_msvc_linker cache"
  then have "searchForCompilerPathInCache cache = Some (entry_value e)"
    by (simp add: searchForCompilerPathInCache_def)
  with a show "getDebugConfigurationFromCache h cache target platform modeOverride None log
          = (if endsWith (entry_value e) ''cl.exe''
             then (Inr (Some (createMSVCDebugConfiguration h target)), log)
             else look_for_debugger h target modeOverride
                    (DEBUG_GEN h (debugger_name platform modeOverride)) (entry_value e) log)"
    by (simp add: getDebugConfigurationFromCache_def)
qed

text \<open>
  The scenario of the specification: \<^verbatim>\<open>CMAKE_CXX_COMPILER=/usr/bin/g++\<close> together with
  \<^verbatim>\<open>CMAKE_C_COMPILER=/usr/bin/gcc\<close>. Both compilers lead to \<^verbatim>\<open>/usr/bin/gdb\<close>, so a second
  cache has its C++ compiler in \<^verbatim>\<open>/opt/cross/bin\<close>, on a machine with a working \<^verbatim>\<open>gdb\<close> in
  both directories: the result names \<^verbatim>\<open>/opt/cross/bin/gdb\<close>, where the C entry alone
  gives \<^verbatim>\<open>/usr/bin/gdb\<close>.
\<close>

theorem compiler_lookup_order_witness:
  "searchForCompilerPathInCache
      (cache_of [(''CMAKE_C_COMPILER'', ''/usr/bin/gcc''), (''CMAKE_CXX_COMPILER'', ''/usr/bin/g++'')])
     = Some ''/usr/bin/g++''
   \<and> getDebugConfigurationFromCache (posix_host [''/usr/bin/gdb''] [''/usr/bin/gdb''])
        (cache_of [(''CMAKE_C_COMPILER'', ''/usr/bin/gcc''), (''CMAKE_CXX_COMPILER'', ''/usr/bin/g++'')])
        hello ''linux'' None None []
     = getDebugConfigurationFromCache (posix_host [''/usr/bin/gdb''] [''/usr/bin/gdb''])
        (cache_of [(''CMAKE_CXX_COMPILER'', ''/usr/bin/g++'')])
        hello ''linux'' None None []
   \<and> getDebugConfigurationFromCache
        (posix_host [''/opt/cross/bin/gdb'', ''/usr/bin/gdb''] [''/opt/cross/bin/gdb'', ''/usr/bin/gdb''])
        (cache_of [(''CMAKE_C_COMPILER'', ''/usr/bin/gcc''), (''CMAKE_CXX_COMPILER'', ''/opt/cross/bin/g++'')])
        hello ''linux'' None None []
     = (Inr (Some \<lparr> type = ''cppdbg'', name = ''Debug hello'', request = ''launch'',
                     cwd = ''/work/build'', args = [], MIMode = Some gdb,
                     miDebuggerPath = Some ''/opt/cross/bin/gdb'',
                     setupCommands = Some [\<lparr> setup_text = Some ''-enable-pretty-printing'',
                                              setup_description = Some ''enable.pretty.printing'',
                                              setup_ignoreFailures = Some True \<rparr>],
                     program = ''/work/build/hello'' \<rparr>),
        [Execute ''/opt/cross/bin/gdb'' [''--version'']])
   \<and> getDebugConfigurationFromCache
        (posix_host [''/opt/cross/bin/gdb'', ''/usr/bin/gdb''] [''/opt/cross/bin/gdb'', ''/usr/bin/gdb''])
        (cache_of [(''CMAKE_C_COMPILER'', ''/usr/bin/gcc'')])
        hello ''linux'' None None []
     = (Inr (Some \<lparr> type = ''cppdbg'', name = ''Debug hello'', request = ''launch'',
                     cwd = ''/work/build'', args = [], MIMode = Some gdb,
                     miDebuggerPath = Some ''/usr/bin/gdb'',
                     setupCommands = Some [\<lparr> setup_text = Some ''-enable-pretty-printing'',
                                              setup_description = Some ''enable.pretty.printing'',
                                              setup_ignoreFailures = Some True \<rparr>],
                     program = ''/work/build/hello'' \<rparr>),
        [Execute ''/usr/bin/gdb'' [''--version'']])"
proof -
  let ?both = "cache_of [(''CMAKE_C_COMPILER'', ''/usr/bin/gcc''), (''CMAKE_CXX_COMPILER'', ''/usr/bin/g++'')]"
  let ?cxx = "cache_of [(''CMAKE_CXX_COMPILER'', ''/usr/bin/g++'')]"
  let ?e = "\<lparr> entry_key = ''CMAKE_CXX_COMPILER'', entry_value = ''/usr/bin/g++'' \<rparr>"
  let ?h = "posix_host [''/usr/bin/gdb''] [''/usr/bin/gdb'']"
  have 1: "?both ''CMAKE_CXX_COMPILER'' = Some ?e" by (simp add: cache_of_def)
  have 2: "?cxx ''CMAKE_CXX_COMPILER'' = Some ?e" by (simp add: cache_of_def)
  have 3: "?cxx ''CMAKE_LINKER'' = ?both ''CMAKE_LINKER''" by (simp add: cache_of_def)
  note t = compiler_lookup_order [where cache = ?both and h = ?h
      and target = hello and platform = "''linux''" and modeOverride = None
      and debuggerPathOverride = None and log = "[]"]
  from t have a: "searchForCompilerPathInCache ?both = Some ''/usr/bin/g++''"
    using 1 by simp
  from t [THEN conjunct2, THEN conjunct1] 1 2 3
  have b: "getDebugConfigurationFromCache ?h ?both hello ''linux'' None None []
     = getDebugConfigurationFromCache ?h ?cxx hello ''linux'' None None []"
    by blast
  let ?mixed = "cache_of [(''CMAKE_C_COMPILER'', ''/usr/bin/gcc''), (''CMAKE_CXX_COMPILER'', ''/opt/cross/bin/g++'')]"
  let ?c = "cache_of [(''CMAKE_C_COMPILER'', ''/usr/bin/gcc'')]"
  let ?f = "\<lparr> entry_key = ''CMAKE_CXX_COMPILER'', entry_value = ''/opt/cross/bin/g++'' \<rparr>"
  let ?k = "posix_host [''/opt/cross/bin/gdb'', ''/usr/bin/gdb''] [''/opt/cross/bin/gdb'', ''/usr/bin/gdb'']"
  have 4: "?mixed ''CMAKE_CXX_COMPILER'' = Some ?f \<and> \<not> is_msvc_linker ?mixed"
    by (simp add: cache_of_def is_msvc_linker_def)
  have 5: "\<not> endsWith (entry_value ?f) ''cl.exe''"
    by (simp add: endsWith_def)
  have 6: "look_for_debugger ?k hello None (DEBUG_GEN ?k (debugger_name ''linux'' None)) ''/opt/cross/bin/g++'' []
     = (Inr (Some \<lparr> type = ''cppdbg'', name = ''Debug hello'', request = ''launch'',
                     cwd = ''/work/build'', args = [], MIMode = Some gdb,
                     miDebuggerPath = Some ''/opt/cross/bin/gdb'',
                     setupCommands = Some [\<lparr> setup_text = Some ''-enable-pretty-printing'',
                                              setup_description = Some ''enable.pretty.printing'',
                                              setup_ignoreFailures = Some True \<rparr>],
                     program = ''/work/build/hello'' \<rparr>),
        [Execute ''/opt/cross/bin/gdb'' [''--version'']])"
    by code_simp
  note u = compiler_lookup_order [where cache = ?mixed and h = ?k
      and target = hello and platform = "''linux''" and modeOverride = None
      and debuggerPathOverride = None and log = "[]"]
  from u [THEN conjunct2, THEN conjunct2, THEN spec, of ?f] 4 5 6
  have c: "getDebugConfigurationFromCache ?k ?mixed hello ''linux'' None None []
     = (Inr (Some \<lparr> type = ''cppdbg'', name = ''Debug hello'', request = ''launch'',
                     cwd = ''/work/build'', args = [], MIMode = Some gdb,
                     miDebuggerPath = Some ''/opt/cross/bin/gdb'',
                     setupCommands = Some [\<lparr> setup_text = Some ''-enable-pretty-printing'',
                                              setup_description = Some ''enable.pretty.printing'',
                                              setup_ignoreFailures = Some True \<rparr>],
                     program = ''/work/build/hello'' \<rparr>),
        [Execute ''/opt/cross/bin/gdb'' [''--version'']])"
    by simp
  have d: "getDebugConfigurationFromCache ?k ?c hello ''linux'' None None []
     = (Inr (Some \<lparr> type = ''cppdbg'', name = ''Debug hello'', request = ''launch'',
                     cwd = ''/work/build'', args = [], MIMode = Some gdb,
                     miDebuggerPath = Some ''/usr/bin/gdb'',
                     setupCommands = Some [\<lparr> setup_text = Some ''-enable-pretty-printing'',
                                              setup_description = Some ''enable.pretty.printing'',
                                              setup_ignoreFailures = Some True \<rparr>],
                     program = ''/work/build/hello'' \<rparr>),
        [Execute ''/usr/bin/gdb'' [''--version'']])"
    by code_simp
  from a b c d show ?thesis by blast
qed

text \<open>
  Claim C7. A cache without any of the three compiler entries makes the resolver throw
  (the result is an \<open>Error\<close>, not the \<^verbatim>\<open>null\<close> result \<open>Inr None\<close>), provided that the
  linker entry does not say MSVC and that no override path returns earlier: an override
  that is given is relative or does not exist. Nothing is probed; the only event is the
  warning about such an override.
\<close>

theorem no_compiler_is_fatal:
  assumes "cache ''CMAKE_CXX_COMPILER'' = None"
    and "cache ''CMAKE_C_COMPILER'' = None"
    and "cache ''CMAKE_CUDA_COMPILER'' = None"
    and "\<not> is_msvc_linker cache"
    and "\<forall>p. debuggerPathOverride = Some p \<and> p \<noteq> [] \<longrightarrow> \<not> (path_isAbsolute h p \<and> fs_exists h p)"
  shows "getDebugConfigurationFromCache h cache target platform modeOverride debuggerPathOverride log =
           (Inl (Error (localize h ''no.compiler.found.in.cache'' [])),
            (case debuggerPathOverride of
               None \<Rightarrow> log
             | Some p \<Rightarrow>
                 if p = [] then log
                 else log @ [Warning (localize h ''invalid.miDebuggerPath.override''
                                        [''miDebuggerPath'', ''cmake.debugConfig'', p])]))"
proof -
  have "searchForCompilerPathInCache cache = None"
    using assms(1-3) by (simp add: searchForCompilerPathInCache_def)
  then show ?thesis
    using assms(4,5)
    by (auto simp add: getDebugConfigurationFromCache_def split: option.splits)
qed

theorem no_compiler_is_fatal_witness:
  "getDebugConfigurationFromCache (posix_host [''gdb'', ''lldb''] [])
       (cache_of [(''CMAKE_LINKER'', ''/usr/bin/ld''), (''CMAKE_BUILD_TYPE'', ''Debug'')])
       hello ''linux'' None (Some ''bin/gdb'') []
     = (Inl (Error ''no.compiler.found.in.cache''), [Warning ''invalid.miDebuggerPath.override''])"
proof -
  let ?cache = "cache_of [(''CMAKE_LINKER'', ''/usr/bin/ld''), (''CMAKE_BUILD_TYPE'', ''Debug'')]"
  let ?h = "posix_host [''gdb'', ''lldb''] []"
  have absent: "?cache ''CMAKE_CXX_COMPILER'' = None" "?cache ''CMAKE_C_COMPILER'' = None"
    "?cache ''CMAKE_CUDA_COMPILER'' = None"
    by (simp_all add: cache_of_def)
  have linker: "\<not> is_msvc_linker ?cache"
    by (simp add: is_msvc_linker_def cache_of_def endsWith_def)
  have override: "\<forall>p. Some ''bin/gdb'' = Some p \<and> p \<noteq> [] \<longrightarrow> \<not> (path_isAbsolute ?h p \<and> fs_exists ?h p)"
    by (simp add: posix_host_def)
  show ?thesis
    using no_compiler_is_fatal [where cache = ?cache and h = ?h and target = hello
        and platform = "''linux''" and modeOverride = None
        and debuggerPathOverride = "Some ''bin/gdb''" and log = "[]", OF absent linker override]
    by (simp add: posix_host_def)
qed

section \<open>The configuration builders\<close>

text \<open>
  Claim C4 says that building a configuration never fails and probes nothing. The GDB
  and LLDB builders do both: on a machine without any debugger each of them runs its
  probes and throws.
\<close>

theorem building_can_fail:
  "createGDBDebugConfiguration (posix_host [] []) ''/usr/bin/gdb'' hello []
     = (Inl (Error ''gdb.not.found''),
        [Execute ''/usr/bin/gdb'' [''--version''], Execute ''gdb'' [''--version'']])
   \<and> createLLDBDebugConfiguration (posix_host [] []) ''/usr/bin/lldb'' hello []
     = (Inl (Error ''gdb.not.found''), [Execute ''/usr/bin/lldb'' [''--version'']])"
  by (simp add: createGDBDebugConfiguration_def createLLDBDebugConfiguration_def
      checkDebugger_def posix_host_def)

text \<open>
  Claim C4, amended. \<open>createMSVCDebugConfiguration\<close> is data assembly only: it has no
  access to the log and no error result. \<open>createGDBDebugConfiguration\<close> probes the path
  it is given and, when that fails, the bare command \<^verbatim>\<open>gdb\<close>; it returns a configuration
  exactly when one of the two probes succeeds and throws otherwise.
  \<open>createLLDBDebugConfiguration\<close> probes the path it is given; it returns a configuration
  exactly when that probe succeeds and throws otherwise.
\<close>

theorem builders_probe_and_may_fail:
  "(\<not> isl (fst (createGDBDebugConfiguration h p target log))
      \<longleftrightarrow> execute h p [''--version''] = 0 \<or> execute h ''gdb'' [''--version''] = 0)
   \<and> snd (createGDBDebugConfiguration h p target log)
       = log @ Execute p [''--version'']
             # (if execute h p [''--version''] = 0 then [] else [Execute ''gdb'' [''--version'']])
   \<and> (\<not> isl (fst (createLLDBDebugConfiguration h p target log))
      \<longleftrightarrow> execute h p [''--version''] = 0)
   \<and> snd (createLLDBDebugConfiguration h p target log) = log @ [Execute p [''--version'']]"
  by (simp add: createGDBDebugConfiguration_def createLLDBDebugConfiguration_def
      checkDebugger_def)

text \<open>On a machine where only the bare command \<^verbatim>\<open>gdb\<close> runs:\<close>

theorem builders_probe_and_may_fail_witness:
  "\<not> isl (fst (createGDBDebugConfiguration (posix_host [''gdb''] []) ''/usr/bin/gdb'' hello []))
   \<and> snd (createGDBDebugConfiguration (posix_host [''gdb''] []) ''/usr/bin/gdb'' hello [])
       = [Execute ''/usr/bin/gdb'' [''--version''], Execute ''gdb'' [''--version'']]
   \<and> isl (fst (createLLDBDebugConfiguration (posix_host [''gdb''] []) ''/usr/bin/gdb'' hello []))
   \<and> snd (createLLDBDebugConfiguration (posix_host [''gdb''] []) ''/usr/bin/gdb'' hello [])
       = [Execute ''/usr/bin/gdb'' [''--version'']]"
  using builders_probe_and_may_fail [of "posix_host [''gdb''] []" "''/usr/bin/gdb''" hello "[]"]
  by (simp add: posix_host_def)

text \<open>
  Claim C5 says that the GDB configuration is the MSVC configuration, type field
  included, with three more fields, the debugger path being the path handed in. The type
  of the GDB configuration is \<^verbatim>\<open>cppdbg\<close>, not \<^verbatim>\<open>cppvsdbg\<close>, and the debugger path is \<^verbatim>\<open>gdb\<close>
  when only the bare command runs.
\<close>

theorem gdb_shape_differs_from_claim:
  "type (createMSVCDebugConfiguration (posix_host [''/usr/bin/gdb''] []) hello) = ''cppvsdbg''
   \<and> map_sum id type (fst (createGDBDebugConfiguration (posix_host [''/usr/bin/gdb''] []) ''/usr/bin/gdb'' hello []))
       = Inr ''cppdbg''
   \<and> fst (createGDBDebugConfiguration (posix_host [''/usr/bin/gdb''] []) ''/usr/bin/gdb'' hello [])
       \<noteq> Inr ((createMSVCDebugConfiguration (posix_host [''/usr/bin/gdb''] []) hello)
               \<lparr> MIMode := Some gdb, miDebuggerPath := Some ''/usr/bin/gdb'',
                 setupCommands := Some [\<lparr> setup_text = Some ''-enable-pretty-printing'',
                                          setup_description = Some ''enable.pretty.printing'',
                                          setup_ignoreFailures = Some True \<rparr>] \<rparr>)
   \<and> map_sum id miDebuggerPath (fst (createGDBDebugConfiguration (posix_host [''gdb''] []) ''/usr/bin/gdb'' hello []))
       = Inr (Some ''gdb'')"
  by (simp add: createGDBDebugConfiguration_def createMSVCDebugConfiguration_def
      checkDebugger_def posix_host_def)

text \<open>
  Claim C5, amended. The MSVC configuration is exactly type \<^verbatim>\<open>cppvsdbg\<close>, name
  \<^verbatim>\<open>Debug <target.name>\<close>, request \<^verbatim>\<open>launch\<close>, cwd the directory of the target, no
  arguments, program the target's path. Every configuration that the GDB builder returns
  has type \<^verbatim>\<open>cppdbg\<close>, the same name, request, cwd, arguments and program, MI mode \<^verbatim>\<open>gdb\<close>,
  one setup command (\<^verbatim>\<open>-enable-pretty-printing\<close>, its localized description, failures
  ignored) and as debugger path the path handed in when its probe succeeds and \<^verbatim>\<open>gdb\<close>
  otherwise. Every configuration that the LLDB builder returns has type \<^verbatim>\<open>cppdbg\<close>, the
  same common fields, MI mode \<^verbatim>\<open>lldb\<close>, the path handed in as debugger path and no setup
  commands. No other field is set, so the three shapes do not mix.
\<close>

theorem configuration_shapes:
  "createMSVCDebugConfiguration h target =
     \<lparr> type = ''cppvsdbg'', name = ''Debug '' @ target_name target, request = ''launch'',
       cwd = path_dirname h (target_path target), args = [],
       MIMode = None, miDebuggerPath = None, setupCommands = None,
       program = target_path target \<rparr>
   \<and> (\<forall>cfg. fst (createGDBDebugConfiguration h p target log) = Inr cfg \<longrightarrow>
         cfg = \<lparr> type = ''cppdbg'', name = ''Debug '' @ target_name target, request = ''launch'',
                 cwd = path_dirname h (target_path target), args = [],
                 MIMode = Some gdb,
                 miDebuggerPath = Some (if execute h p [''--version''] = 0 then p else ''gdb''),
                 setupCommands = Some [\<lparr> setup_text = Some ''-enable-pretty-printing'',
                                          setup_description = Some (localize h ''enable.pretty.printing'' []),
                                          setup_ignoreFailures = Some True \<rparr>],
                 program = target_path target \<rparr>)
   \<and> (\<forall>cfg. fst (createLLDBDebugConfiguration h p target log) = Inr cfg \<longrightarrow>
         cfg = \<lparr> type = ''cppdbg'', name = ''Debug '' @ target_name target, request = ''launch'',
                 cwd = path_dirname h (target_path target), args = [],
                 MIMode = Some lldb, miDebuggerPath = Some p, setupCommands = None,
                 program = target_path target \<rparr>)"
  by (auto simp add: createGDBDebugConfiguration_def createLLDBDebugConfiguration_def
      createMSVCDebugConfiguration_def checkDebugger_def split: if_splits)

text \<open>On a machine where \<^verbatim>\<open>/usr/bin/gdb\<close> and \<^verbatim>\<open>/usr/bin/lldb\<close> run:\<close>

theorem configuration_shapes_witness:
  "createMSVCDebugConfiguration (posix_host [''/usr/bin/gdb'', ''/usr/bin/lldb''] []) hello =
     \<lparr> type = ''cppvsdbg'', name = ''Debug hello'', request = ''launch'',
       cwd = ''/work/build'', args = [],
       MIMode = None, miDebuggerPath = None, setupCommands = None,
       program = ''/work/build/hello'' \<rparr>
   \<and> fst (createGDBDebugConfiguration (posix_host [''/usr/bin/gdb'', ''/usr/bin/lldb''] []) ''/usr/bin/gdb'' hello []) =
       Inr \<lparr> type = ''cppdbg'', name = ''Debug hello'', request = ''launch'',
             cwd = ''/work/build'', args = [],
             MIMode = Some gdb, miDebuggerPath = Some ''/usr/bin/gdb'',
             setupCommands = Some [\<lparr> setup_text = Some ''-enable-pretty-printing'',
                                      setup_description = Some ''enable.pretty.printing'',
                                      setup_ignoreFailures = Some True \<rparr>],
             program = ''/work/build/hello'' \<rparr>
   \<and> fst (createLLDBDebugConfiguration (posix_host [''/usr/bin/gdb'', ''/usr/bin/lldb''] []) ''/usr/bin/lldb'' hello []) =
       Inr \<lparr> type = ''cppdbg'', name = ''Debug hello'', request = ''launch'',
             cwd = ''/work/build'', args = [],
             MIMode = Some lldb, miDebuggerPath = Some ''/usr/bin/lldb'', setupCommands = None,
             program = ''/work/build/hello'' \<rparr>"
proof -
  let ?h = "posix_host [''/usr/bin/gdb'', ''/usr/bin/lldb''] []"
  have g: "\<not> isl (fst (createGDBDebugConfiguration ?h ''/usr/bin/gdb'' hello []))"
    by (simp add: createGDBDebugConfiguration_def checkDebugger_def posix_host_def)
  have l: "\<not> isl (fst (createLLDBDebugConfiguration ?h ''/usr/bin/lldb'' hello []))"
    by (simp add: createLLDBDebugConfiguration_def checkDebugger_def posix_host_def)
  from g obtain cg where cg: "fst (createGDBDebugConfiguration ?h ''/usr/bin/gdb'' hello []) = Inr cg"
    by (cases "fst (createGDBDebugConfiguration ?h ''/usr/bin/gdb'' hello [])") auto
  from l obtain cl where cl: "fst (createLLDBDebugConfiguration ?h ''/usr/bin/lldb'' hello []) = Inr cl"
    by (cases "fst (createLLDBDebugConfiguration ?h ''/usr/bin/lldb'' hello [])") auto
  have dir: "path_dirname ?h (target_path hello) = ''/work/build''"
    by (simp add: posix_host_def hello_def posix_dirname_def)
  have ex: "execute ?h ''/usr/bin/gdb'' [''--version''] = 0" "localize ?h ''enable.pretty.printing'' [] = ''enable.pretty.printing''"
    by (simp_all add: posix_host_def)
  note t1 = configuration_shapes [of ?h hello "''/usr/bin/gdb''" "[]"]
  note t2 = configuration_shapes [of ?h hello "''/usr/bin/lldb''" "[]"]
  from t1 cg have "cg = \<lparr> type = ''cppdbg'', name = ''Debug hello'', request = ''launch'',
             cwd = ''/work/build'', args = [],
             MIMode = Some gdb, miDebuggerPath = Some ''/usr/bin/gdb'',
             setupCommands = Some [\<lparr> setup_text = Some ''-enable-pretty-printing'',
                                      setup_description = Some ''enable.pretty.printing'',
                                      setup_ignoreFailures = Some True \<rparr>],
             program = ''/work/build/hello'' \<rparr>"
    using dir ex by (simp add: hello_def)
  moreover from t2 cl have "cl = \<lparr> type = ''cppdbg'', name = ''Debug hello'', request = ''launch'',
             cwd = ''/work/build'', args = [],
             MIMode = Some lldb, miDebuggerPath = Some ''/usr/bin/lldb'', setupCommands = None,
             program = ''/work/build/hello'' \<rparr>"
    using dir by (simp add: hello_def)
  moreover from t1 have "createMSVCDebugConfiguration ?h hello =
     \<lparr> type = ''cppvsdbg'', name = ''Debug hello'', request = ''launch'',
       cwd = ''/work/build'', args = [],
       MIMode = None, miDebuggerPath = None, setupCommands = None,
       program = ''/work/build/hello'' \<rparr>"
    using dir by (simp add: hello_def)
  ultimately show ?thesis using cg cl by simp
qed

section \<open>The debugger path override\<close>

text \<open>
  Claim C8 says that an override which is absolute and exists ends up as the debugger
  path of the result. Here \<^verbatim>\<open>/opt/dbg\<close> is absolute and exists but does not answer
  \<^verbatim>\<open>--version\<close>, and the result names the bare command \<^verbatim>\<open>gdb\<close>.
\<close>

theorem valid_override_is_probed:
  "path_isAbsolute (posix_host [''gdb''] [''/opt/dbg'']) ''/opt/dbg''
   \<and> fs_exists (posix_host [''gdb''] [''/opt/dbg'']) ''/opt/dbg''
   \<and> getDebugConfigurationFromCache (posix_host [''gdb''] [''/opt/dbg''])
        (cache_of [(''CMAKE_C_COMPILER'', ''/usr/bin/cc'')]) hello ''linux'' None (Some ''/opt/dbg'') []
     = (Inr (Some \<lparr> type = ''cppdbg'', name = ''Debug hello'', request = ''launch'',
                     cwd = ''/work/build'', args = [], MIMode = Some gdb,
                     miDebuggerPath = Some ''gdb'',
                     setupCommands = Some [\<lparr> setup_text = Some ''-enable-pretty-printing'',
                                              setup_description = Some ''enable.pretty.printing'',
                                              setup_ignoreFailures = Some True \<rparr>],
                     program = ''/work/build/hello'' \<rparr>),
        [Execute ''/opt/dbg'' [''--version''], Execute ''gdb'' [''--version'']])"
  by (simp add: getDebugConfigurationFromCache_def is_msvc_linker_def cache_of_def
      debugger_name_def returned_def createGDBDebugConfiguration_def checkDebugger_def
      posix_host_def posix_isAbsolute_def posix_dirname_def hello_def)

text \<open>
  Claim C8, amended. Let the linker entry not say MSVC and let a non-empty override be
  given. If it is absolute and exists, the resolver returns what the builder of the
  preferred family returns for it, and nothing else is tried; when the override also
  answers the \<^verbatim>\<open>--version\<close> probe, that is a configuration of the preferred family whose
  debugger path is the override. If it is relative or does not exist, a warning is
  logged, the override is ignored and resolution goes on with the compiler: the outcome
  is that of a call without override that starts after the warning.
\<close>

theorem override_handling:
  assumes "\<not> is_msvc_linker cache" and "p \<noteq> []"
  shows "(path_isAbsolute h p \<and> fs_exists h p \<longrightarrow>
            getDebugConfigurationFromCache h cache target platform modeOverride (Some p) log
              = (let r = createConfig (DEBUG_GEN h (debugger_name platform modeOverride)) p target log
                 in (map_sum id Some (fst r), snd r)))
       \<and> (path_isAbsolute h p \<and> fs_exists h p \<and> execute h p [''--version''] = 0 \<longrightarrow>
            map_sum id (map_option (\<lambda>cfg. (MIMode cfg, miDebuggerPath cfg)))
              (fst (getDebugConfigurationFromCache h cache target platform modeOverride (Some p) log))
              = Inr (Some (Some (debugger_name platform modeOverride), Some p)))
       \<and> (\<not> (path_isAbsolute h p \<and> fs_exists h p) \<longrightarrow>
            getDebugConfigurationFromCache h cache target platform modeOverride (Some p) log
              = getDebugConfigurationFromCache h cache target platform modeOverride None
                  (log @ [Warning (localize h ''invalid.miDebuggerPath.override''
                                     [''miDebuggerPath'', ''cmake.debugConfig'', p])]))"
proof (intro conjI impI)
  assume v: "path_isAbsolute h p \<and> fs_exists h p"
  with assms show "getDebugConfigurationFromCache h cache target platform modeOverride (Some p) log
              = (let r = createConfig (DEBUG_GEN h (debugger_name platform modeOverride)) p target log
                 in (map_sum id Some (fst r), snd r))"
    by (simp add: getDebugConfigurationFromCache_def returned_def Let_def)
next
  assume v: "path_isAbsolute h p \<and> fs_exists h p \<and> execute h p [''--version''] = 0"
  with assms show "map_sum id (map_option (\<lambda>cfg. (MIMode cfg, miDebuggerPath cfg)))
              (fst (getDebugConfigurationFromCache h cache target platform modeOverride (Some p) log))
              = Inr (Some (Some (debugger_name platform modeOverride), Some p))"
    by (cases "debugger_name platform modeOverride")
      (simp_all add: getDebugConfigurationFromCache_def returned_def
        createGDBDebugConfiguration_def createLLDBDebugConfiguration_def checkDebugger_def)
next
  assume "\<not> (path_isAbsolute h p \<and> fs_exists h p)"
  with assms show "getDebugConfigurationFromCache h cache target platform modeOverride (Some p) log
              = getDebugConfigurationFromCache h cache target platform modeOverride None
                  (log @ [Warning (localize h ''invalid.miDebuggerPath.override''
                                     [''miDebuggerPath'', ''cmake.debugConfig'', p])])"
    by (auto simp add: getDebugConfigurationFromCache_def)
qed

text \<open>
  On a macOS-like platform id with a working \<^verbatim>\<open>/opt/dbg\<close>: the absolute override is
  used, the relative one is reported and dropped.
\<close>

theorem override_handling_witness:
  "getDebugConfigurationFromCache (posix_host [''/opt/dbg''] [''/opt/dbg''])
        (cache_of [(''CMAKE_C_COMPILER'', ''/usr/bin/cc'')]) hello ''darwin'' None (Some ''/opt/dbg'') []
     = (Inr (Some \<lparr> type = ''cppdbg'', name = ''Debug hello'', request = ''launch'',
                     cwd = ''/work/build'', args = [], MIMode = Some lldb,
                     miDebuggerPath = Some ''/opt/dbg'', setupCommands = None,
                     program = ''/work/build/hello'' \<rparr>),
        [Execute ''/opt/dbg'' [''--version'']])
   \<and> getDebugConfigurationFromCache (posix_host [''/opt/dbg''] [''/opt/dbg''])
        (cache_of [(''CMAKE_C_COMPILER'', ''/usr/bin/cc'')]) hello ''darwin'' None (Some ''opt/dbg'') []
     = getDebugConfigurationFromCache (posix_host [''/opt/dbg''] [''/opt/dbg''])
        (cache_of [(''CMAKE_C_COMPILER'', ''/usr/bin/cc'')]) hello ''darwin'' None None
        [Warning ''invalid.miDebuggerPath.override'']"
proof -
  let ?h = "posix_host [''/opt/dbg''] [''/opt/dbg'']"
  let ?cache = "cache_of [(''CMAKE_C_COMPILER'', ''/usr/bin/cc'')]"
  have linker: "\<not> is_msvc_linker ?cache"
    by (simp add: is_msvc_linker_def cache_of_def)
  have valid: "path_isAbsolute ?h ''/opt/dbg'' \<and> fs_exists ?h ''/opt/dbg''"
    by (simp add: posix_host_def posix_isAbsolute_def)
  have invalid: "\<not> (path_isAbsolute ?h ''opt/dbg'' \<and> fs_exists ?h ''opt/dbg'')"
    by (simp add: posix_host_def posix_isAbsolute_def)
  have build: "createConfig (DEBUG_GEN ?h (debugger_name ''darwin'' None)) ''/opt/dbg'' hello []
      = (Inr \<lparr> type = ''cppdbg'', name = ''Debug hello'', request = ''launch'',
                     cwd = ''/work/build'', args = [], MIMode = Some lldb,
                     miDebuggerPath = Some ''/opt/dbg'', setupCommands = None,
                     program = ''/work/build/hello'' \<rparr>, [Execute ''/opt/dbg'' [''--version'']])"
    by (simp add: debugger_name_def createLLDBDebugConfiguration_def checkDebugger_def
        posix_host_def posix_dirname_def hello_def)
  have "''/opt/dbg'' \<noteq> []" by simp
  from override_handling [OF linker this, of ?h hello "''darwin''" None "[]"] valid build
  have 1: "getDebugConfigurationFromCache ?h ?cache hello ''darwin'' None (Some ''/opt/dbg'') []
     = (Inr (Some \<lparr> type = ''cppdbg'', name = ''Debug hello'', request = ''launch'',
                     cwd = ''/work/build'', args = [], MIMode = Some lldb,
                     miDebuggerPath = Some ''/opt/dbg'', setupCommands = None,
                     program = ''/work/build/hello'' \<rparr>),
        [Execute ''/opt/dbg'' [''--version'']])"
    by simp
  have "''opt/dbg'' \<noteq> []" by simp
  from override_handling [OF linker this, of ?h hello "''darwin''" None "[]"] invalid
  have 2: "getDebugConfigurationFromCache ?h ?cache hello ''darwin'' None (Some ''opt/dbg'') []
     = getDebugConfigurationFromCache ?h ?cache hello ''darwin'' None None
        [Warning ''invalid.miDebuggerPath.override'']"
    by (simp add: posix_host_def)
  from 1 2 show ?thesis by simp
qed

section \<open>Candidate precedence\<close>

text \<open>
  Claim C2. Let the toolchain not be MSVC, let there be no path override and let the
  mode override not ask for \<^verbatim>\<open>gdb\<close>. When the \<^verbatim>\<open>lldb-mi\<close> derivation of the compiler path
  contains \<^verbatim>\<open>lldb-mi\<close> and answers the probe, the result is the LLDB configuration with
  that path, and the only commands run are its two probes (one by the resolver, one by
  the builder): the \<^verbatim>\<open>gdb\<close> derivation is not even probed, whether it would validate or
  not. The instance below is the scenario of the specification: compiler \<^verbatim>\<open>/usr/bin/clang++\<close>,
  \<^verbatim>\<open>/usr/bin/lldb-mi\<close> and \<^verbatim>\<open>/usr/bin/gdb\<close> both present and working, platform default.
\<close>

theorem lldb_mi_precedes_gdb:
  assumes "\<not> is_msvc_linker cache"
    and "searchForCompilerPathInCache cache = Some compiler_path"
    and "\<not> endsWith compiler_path ''cl.exe''"
    and "modeOverride \<noteq> Some gdb"
    and "search_literal (replace compiler_path clang_compiler_regex ''lldb-mi'') ''lldb-mi''"
    and "execute h (replace compiler_path clang_compiler_regex ''lldb-mi'') [''--version''] = 0"
  shows "getDebugConfigurationFromCache h cache target platform modeOverride None log =
           (Inr (Some \<lparr> type = ''cppdbg'',
                        name = ''Debug '' @ target_name target,
                        request = ''launch'',
                        cwd = path_dirname h (target_path target),
                        args = [],
                        MIMode = Some lldb,
                        miDebuggerPath = Some (replace compiler_path clang_compiler_regex ''lldb-mi''),
                        setupCommands = None,
                        program = target_path target \<rparr>),
            log @ [Execute (replace compiler_path clang_compiler_regex ''lldb-mi'') [''--version''],
                   Execute (replace compiler_path clang_compiler_regex ''lldb-mi'') [''--version'']])"
  using assms
  by (simp add: getDebugConfigurationFromCache_def look_for_debugger_def lldb_mi_step_def
      returned_def createLLDBDebugConfiguration_def checkDebugger_def Let_def)

theorem lldb_mi_precedes_gdb_witness:
  "execute (posix_host [''/usr/bin/lldb-mi'', ''/usr/bin/gdb''] [''/usr/bin/clang++'', ''/usr/bin/lldb-mi'', ''/usr/bin/gdb''])
       (replace ''/usr/bin/clang++'' clang_compiler_regex ''gdb'') [''--version''] = 0
   \<and> getDebugConfigurationFromCache
       (posix_host [''/usr/bin/lldb-mi'', ''/usr/bin/gdb''] [''/usr/bin/clang++'', ''/usr/bin/lldb-mi'', ''/usr/bin/gdb''])
       (cache_of [(''CMAKE_CXX_COMPILER'', ''/usr/bin/clang++'')]) hello ''linux'' None None []
     = (Inr (Some \<lparr> type = ''cppdbg'', name = ''Debug hello'', request = ''launch'',
                     cwd = ''/work/build'', args = [], MIMode = Some lldb,
                     miDebuggerPath = Some ''/usr/bin/lldb-mi'', setupCommands = None,
                     program = ''/work/build/hello'' \<rparr>),
        [Execute ''/usr/bin/lldb-mi'' [''--version''], Execute ''/usr/bin/lldb-mi'' [''--version'']])"
proof -
  let ?h = "posix_host [''/usr/bin/lldb-mi'', ''/usr/bin/gdb''] [''/usr/bin/clang++'', ''/usr/bin/lldb-mi'', ''/usr/bin/gdb'']"
  let ?cache = "cache_of [(''CMAKE_CXX_COMPILER'', ''/usr/bin/clang++'')]"
  have mi: "replace ''/usr/bin/clang++'' clang_compiler_regex ''lldb-mi'' = ''/usr/bin/lldb-mi''"
    by code_simp
  have g: "replace ''/usr/bin/clang++'' clang_compiler_regex ''gdb'' = ''/usr/bin/gdb''"
    by code_simp
  have linker: "\<not> is_msvc_linker ?cache"
    by (simp add: is_msvc_linker_def cache_of_def)
  have compiler: "searchForCompilerPathInCache ?cache = Some ''/usr/bin/clang++''"
    by (simp add: searchForCompilerPathInCache_def cache_of_def)
  have cl: "\<not> endsWith ''/usr/bin/clang++'' ''cl.exe''"
    by (simp add: endsWith_def)
  have mode: "None \<noteq> Some gdb" by simp
  have found: "search_literal (replace ''/usr/bin/clang++'' clang_compiler_regex ''lldb-mi'') ''lldb-mi''"
    unfolding mi by simp
  have works: "execute ?h (replace ''/usr/bin/clang++'' clang_compiler_regex ''lldb-mi'') [''--version''] = 0"
    unfolding mi by (simp add: posix_host_def)
  have gdb_works: "execute ?h (replace ''/usr/bin/clang++'' clang_compiler_regex ''gdb'') [''--version''] = 0"
    unfolding g by (simp add: posix_host_def)
  have dir: "path_dirname ?h (target_path hello) = ''/work/build''"
    by (simp add: posix_host_def hello_def posix_dirname_def)
  from lldb_mi_precedes_gdb [OF linker compiler cl mode found works, of hello "''linux''" "[]"]
  show ?thesis
    using gdb_works dir unfolding mi by (simp add: hello_def)
qed

section \<open>The builders and the steps, case by case\<close>

text \<open>
  Facts about the log and the result of each builder and of each step, used by the
  theorems on the whole resolver below.
\<close>

lemma probed_append: "probed (xs @ ys) = probed xs @ probed ys"
  by (induction xs) (auto split: event.splits)

lemma probed_probes: "probed (probes cs) = cs"
  by (induction cs) (simp_all add: probes_def)

lemma createGDB_log:
  "snd (createGDBDebugConfiguration h p t log) =
     log @ Execute p [''--version'']
         # (if execute h p [''--version''] = 0 then [] else [Execute ''gdb'' [''--version'']])"
  by (simp add: createGDBDebugConfiguration_def checkDebugger_def)

lemma createGDB_config:
  assumes "fst (createGDBDebugConfiguration h p t log) = Inr cfg"
  shows "MIMode cfg = Some gdb"
    and "miDebuggerPath cfg = Some (if execute h p [''--version''] = 0 then p else ''gdb'')"
    and "execute h p [''--version''] = 0 \<or> execute h ''gdb'' [''--version''] = 0"
  using assms
  by (auto simp add: createGDBDebugConfiguration_def checkDebugger_def split: if_splits)

lemma createGDB_validated:
  assumes "fst (createGDBDebugConfiguration h p t log) = Inr cfg"
  shows "\<exists>q. miDebuggerPath cfg = Some q \<and> execute h q [''--version''] = 0"
  using createGDB_config [OF assms] by auto

lemma createLLDB_log:
  "snd (createLLDBDebugConfiguration h p t log) = log @ [Execute p [''--version'']]"
  by (simp add: createLLDBDebugConfiguration_def checkDebugger_def)

lemma createLLDB_config:
  assumes "fst (createLLDBDebugConfiguration h p t log) = Inr cfg"
  shows "MIMode cfg = Some lldb" and "miDebuggerPath cfg = Some p"
    and "execute h p [''--version''] = 0"
  using assms
  by (auto simp add: createLLDBDebugConfiguration_def checkDebugger_def split: if_splits)

lemma lldb_mi_step_gdb: "lldb_mi_step h t (Some gdb) cp log = (None, log)"
  by (simp add: lldb_mi_step_def)

lemma lldb_step_gdb: "lldb_step h t (Some gdb) cp log = (None, log)"
  by (simp add: lldb_step_def)

lemma gdb_step_lldb: "gdb_step h t (Some lldb) cp log = (None, log)"
  by (simp add: gdb_step_def)

lemma gdb_step_cases:
  "gdb_step h t m cp log =
     (let g = replace cp clang_compiler_regex ''gdb'' in
      if m \<noteq> Some lldb \<and> search_literal g ''gdb'' then
        if execute h g [''--version''] = 0
        then returned (createGDBDebugConfiguration h g t (log @ [Execute g [''--version'']]))
        else (None, log @ [Execute g [''--version'']])
      else (None, log))"
  by (simp add: gdb_step_def checkDebugger_def Let_def)

lemma lldb_step_cases:
  "lldb_step h t m cp log =
     (let l = replace cp clang_compiler_regex ''lldb'' in
      if m \<noteq> Some gdb \<and> search_literal l ''lldb'' then
        if execute h l [''--version''] = 0
        then returned (createLLDBDebugConfiguration h l t (log @ [Execute l [''--version'']]))
        else (None, log @ [Execute l [''--version'']])
      else (None, log))"
  by (simp add: lldb_step_def checkDebugger_def Let_def)

lemma lldb_mi_step_cases:
  "lldb_mi_step h t m cp log =
     (let mi = replace cp clang_compiler_regex ''lldb-mi'' in
      if m \<noteq> Some gdb \<and> search_literal mi ''lldb-mi'' then
        if execute h mi [''--version''] = 0
        then returned (createLLDBDebugConfiguration h mi t (log @ [Execute mi [''--version'']]))
        else (case getExtension h ''ms-vscode.cpptools'' of
                None \<Rightarrow> (None, log @ [Execute mi [''--version'']])
              | Some e \<Rightarrow>
                  (let p = path_join h [e, ''debugAdapters'', ''lldb-mi'', ''bin'', ''lldb-mi''] in
                   if p = [] then (None, log @ [Execute mi [''--version'']])
                   else if execute h p [''--version''] = 0
                   then returned (createLLDBDebugConfiguration h p t
                                    (log @ [Execute mi [''--version''], Execute p [''--version'']]))
                   else (None, log @ [Execute mi [''--version''], Execute p [''--version'']])))
      else (None, log))"
  by (simp add: lldb_mi_step_def checkDebugger_def Let_def split: option.splits)

lemma steps_fall_through:
  assumes "\<forall>c \<in> set (derived_candidates h m cp). execute h c [''--version''] \<noteq> 0"
  shows "look_for_debugger h t m d cp log
           = generic_fallback h t d cp (log @ probes (derived_candidates h m cp))"
  using assms
  by (auto simp add: look_for_debugger_def lldb_mi_step_cases gdb_step_cases lldb_step_cases
      derived_candidates_def probes_def Let_def split: option.splits)

lemma reaching_fallback:
  assumes "\<not> is_msvc_linker cache"
    and "searchForCompilerPathInCache cache = Some cp"
    and "\<not> endsWith cp ''cl.exe''"
    and "\<forall>c \<in> set (derived_candidates h m cp). execute h c [''--version''] \<noteq> 0"
  shows "getDebugConfigurationFromCache h cache t platform m None log
           = generic_fallback h t (DEBUG_GEN h (debugger_name platform m)) cp
               (log @ probes (derived_candidates h m cp))"
  using assms(1-3) steps_fall_through [OF assms(4)]
  by (simp add: getDebugConfigurationFromCache_def)

lemma miMode_DEBUG_GEN: "miMode (DEBUG_GEN h fam) = fam"
  by (cases fam) simp_all

section \<open>The generic fallback\<close>

text \<open>
  Claim C10. Let the toolchain not be MSVC, let there be no path override, and let none
  of the candidates derived in steps 1 to 3 (\<^verbatim>\<open>lldb-mi\<close>, the CppTools \<^verbatim>\<open>lldb-mi\<close>, \<^verbatim>\<open>gdb\<close>,
  \<^verbatim>\<open>lldb\<close>, as far as the mode override admits them) answer its probe. When the path of
  the generic fallback (the substitution of the GCC pattern, or the directory join when
  the substituted absolute path does not exist) contains the name of the preferred
  family, the resolver hands it to the builder of that family directly: the builder
  starts on the log of the failed probes of the derived candidates, the resolver itself
  has run no probe for the fallback path. Consequently, for the preferred family
  \<^verbatim>\<open>gdb\<close>, when the fallback path fails the probe and the bare command \<^verbatim>\<open>gdb\<close> passes
  it, the debugger path of the returned configuration is the string \<^verbatim>\<open>gdb\<close>.
\<close>

theorem fallback_path_goes_to_builder_unprobed:
  assumes "\<not> is_msvc_linker cache"
    and "searchForCompilerPathInCache cache = Some compiler_path"
    and "\<not> endsWith compiler_path ''cl.exe''"
    and "\<forall>c \<in> set (derived_candidates h modeOverride compiler_path). execute h c [''--version''] \<noteq> 0"
    and "search_literal
           (gdb_debugger_path h (DEBUG_GEN h (debugger_name platform modeOverride)) compiler_path)
           (MIModes_value (debugger_name platform modeOverride))"
  shows "getDebugConfigurationFromCache h cache target platform modeOverride None log
           = (let r = createConfig (DEBUG_GEN h (debugger_name platform modeOverride))
                        (gdb_debugger_path h (DEBUG_GEN h (debugger_name platform modeOverride)) compiler_path)
                        target
                        (log @ probes (derived_candidates h modeOverride compiler_path))
              in (map_sum id Some (fst r), snd r))
         \<and> (debugger_name platform modeOverride = gdb
              \<and> execute h (gdb_debugger_path h (DEBUG_GEN h gdb) compiler_path) [''--version''] \<noteq> 0
              \<and> execute h ''gdb'' [''--version''] = 0
            \<longrightarrow> map_sum id (map_option miDebuggerPath)
                  (fst (getDebugConfigurationFromCache h cache target platform modeOverride None log))
                = Inr (Some (Some ''gdb'')))"
proof -
  let ?d = "DEBUG_GEN h (debugger_name platform modeOverride)"
  let ?fp = "gdb_debugger_path h ?d compiler_path"
  let ?log = "log @ probes (derived_candidates h modeOverride compiler_path)"
  have eq: "getDebugConfigurationFromCache h cache target platform modeOverride None log
      = (let r = createConfig ?d ?fp target ?log in (map_sum id Some (fst r), snd r))"
    using reaching_fallback [OF assms(1-4)] assms(5)
    by (simp add: generic_fallback_def miMode_DEBUG_GEN)
  have "map_sum id (map_option miDebuggerPath)
          (fst (getDebugConfigurationFromCache h cache target platform modeOverride None log))
        = Inr (Some (Some ''gdb''))"
    if "debugger_name platform modeOverride = gdb"
      and "execute h (gdb_debugger_path h (DEBUG_GEN h gdb) compiler_path) [''--version''] \<noteq> 0"
      and "execute h ''gdb'' [''--version''] = 0"
    using that unfolding eq
    by (simp add: createGDBDebugConfiguration_def checkDebugger_def)
  with eq show ?thesis by blast
qed

text \<open>
  Compiler \<^verbatim>\<open>/usr/bin/clang++\<close> on a machine where only the bare command \<^verbatim>\<open>gdb\<close> runs:
  three derived candidates fail, the fallback path \<^verbatim>\<open>/usr/bin/gdb\<close> fails in the builder,
  and the result names \<^verbatim>\<open>gdb\<close>.
\<close>

theorem fallback_path_goes_to_builder_unprobed_witness:
  "getDebugConfigurationFromCache (posix_host [''gdb''] [''/usr/bin/clang++''])
       (cache_of [(''CMAKE_CXX_COMPILER'', ''/usr/bin/clang++'')]) hello ''linux'' None None []
     = (Inr (Some \<lparr> type = ''cppdbg'', name = ''Debug hello'', request = ''launch'',
                     cwd = ''/work/build'', args = [], MIMode = Some gdb,
                     miDebuggerPath = Some ''gdb'',
                     setupCommands = Some [\<lparr> setup_text = Some ''-enable-pretty-printing'',
                                              setup_description = Some ''enable.pretty.printing'',
                                              setup_ignoreFailures = Some True \<rparr>],
                     program = ''/work/build/hello'' \<rparr>),
        [Execute ''/usr/bin/lldb-mi'' [''--version''], Execute ''/usr/bin/gdb'' [''--version''],
         Execute ''/usr/bin/lldb'' [''--version''], Execute ''/usr/bin/gdb'' [''--version''],
         Execute ''gdb'' [''--version'']])"
proof -
  let ?h = "posix_host [''gdb''] [''/usr/bin/clang++'']"
  let ?cache = "cache_of [(''CMAKE_CXX_COMPILER'', ''/usr/bin/clang++'')]"
  have linker: "\<not> is_msvc_linker ?cache"
    by (simp add: is_msvc_linker_def cache_of_def)
  have compiler: "searchForCompilerPathInCache ?cache = Some ''/usr/bin/clang++''"
    by (simp add: searchForCompilerPathInCache_def cache_of_def)
  have cl: "\<not> endsWith ''/usr/bin/clang++'' ''cl.exe''"
    by (simp add: endsWith_def)
  have name: "debugger_name ''linux'' None = gdb"
    by (simp add: debugger_name_def)
  have derived: "derived_candidates ?h None ''/usr/bin/clang++''
      = [''/usr/bin/lldb-mi'', ''/usr/bin/gdb'', ''/usr/bin/lldb'']"
    by code_simp
  have fail: "\<forall>c \<in> set (derived_candidates ?h None ''/usr/bin/clang++''). execute ?h c [''--version''] \<noteq> 0"
    unfolding derived by (simp add: posix_host_def)
  have path: "gdb_debugger_path ?h (DEBUG_GEN ?h gdb) ''/usr/bin/clang++'' = ''/usr/bin/gdb''"
    by code_simp
  have found: "search_literal (gdb_debugger_path ?h (DEBUG_GEN ?h (debugger_name ''linux'' None)) ''/usr/bin/clang++'')
     (MIModes_value (debugger_name ''linux'' None))"
    unfolding name path by simp
  have build: "createGDBDebugConfiguration ?h ''/usr/bin/gdb'' hello
       (probes [''/usr/bin/lldb-mi'', ''/usr/bin/gdb'', ''/usr/bin/lldb''])
     = (Inr \<lparr> type = ''cppdbg'', name = ''Debug hello'', request = ''launch'',
                     cwd = ''/work/build'', args = [], MIMode = Some gdb,
                     miDebuggerPath = Some ''gdb'',
                     setupCommands = Some [\<lparr> setup_text = Some ''-enable-pretty-printing'',
                                              setup_description = Some ''enable.pretty.printing'',
                                              setup_ignoreFailures = Some True \<rparr>],
                     program = ''/work/build/hello'' \<rparr>,
        [Execute ''/usr/bin/lldb-mi'' [''--version''], Execute ''/usr/bin/gdb'' [''--version''],
         Execute ''/usr/bin/lldb'' [''--version''], Execute ''/usr/bin/gdb'' [''--version''],
         Execute ''gdb'' [''--version'']])"
    by (simp add: createGDBDebugConfiguration_def checkDebugger_def probes_def
        posix_host_def posix_dirname_def hello_def)
  from fallback_path_goes_to_builder_unprobed [OF linker compiler cl fail found, of hello "[]"]
  show ?thesis
    unfolding name derived path using build by simp
qed

text \<open>
  Claim C6 says that a requested family whose derived candidates all fail is looked for
  under its bare command name, and that the resolver throws exactly when that command
  is absent too. With \<^verbatim>\<open>gdb\<close> requested and the existing compiler \<^verbatim>\<open>/usr/bin/clang\<close>, the
  fallback path is the compiler path itself, the bare command is never run and the
  result is \<^verbatim>\<open>null\<close> with a warning, whether \<^verbatim>\<open>gdb\<close> runs or not. With \<^verbatim>\<open>lldb\<close> requested
  and a working bare command \<^verbatim>\<open>lldb\<close>, the resolver throws after the probe of
  \<^verbatim>\<open>/usr/bin/lldb\<close>.
\<close>

theorem bare_command_is_not_always_tried:
  "getDebugConfigurationFromCache (posix_host [''gdb''] [''/usr/bin/clang''])
       (cache_of [(''CMAKE_C_COMPILER'', ''/usr/bin/clang'')]) hello ''linux'' (Some gdb) None []
     = (Inr None, [Execute ''/usr/bin/gdb'' [''--version''],
                   Warning ''unable.to.determine.debugger.for.compiler''])
   \<and> getDebugConfigurationFromCache (posix_host [] [''/usr/bin/clang''])
       (cache_of [(''CMAKE_C_COMPILER'', ''/usr/bin/clang'')]) hello ''linux'' (Some gdb) None []
     = (Inr None, [Execute ''/usr/bin/gdb'' [''--version''],
                   Warning ''unable.to.determine.debugger.for.compiler''])
   \<and> getDebugConfigurationFromCache (posix_host [''lldb''] [''/usr/bin/cc''])
       (cache_of [(''CMAKE_C_COMPILER'', ''/usr/bin/cc'')]) hello ''linux'' (Some lldb) None []
     = (Inl (Error ''gdb.not.found''), [Execute ''/usr/bin/lldb'' [''--version'']])"
  by code_simp

text \<open>
  Claim C6, amended, for the family \<^verbatim>\<open>gdb\<close>. Let \<^verbatim>\<open>gdb\<close> be requested, the toolchain not
  be MSVC, no path override be given and no derived candidate answer its probe. If the
  path of the generic fallback contains \<^verbatim>\<open>gdb\<close>, the resolver probes that path and, when
  it fails, the bare command \<^verbatim>\<open>gdb\<close>; it throws exactly when both fail and never returns
  \<^verbatim>\<open>null\<close>. If the path does not contain \<^verbatim>\<open>gdb\<close>, nothing more is probed and the result
  is \<^verbatim>\<open>null\<close> with the warning that names the compiler path.
\<close>

theorem gdb_falls_back_to_bare_command:
  assumes "\<not> is_msvc_linker cache"
    and "searchForCompilerPathInCache cache = Some compiler_path"
    and "\<not> endsWith compiler_path ''cl.exe''"
    and "\<forall>c \<in> set (derived_candidates h (Some gdb) compiler_path). execute h c [''--version''] \<noteq> 0"
  shows "(search_literal (gdb_debugger_path h (DEBUG_GEN h gdb) compiler_path) ''gdb'' \<longrightarrow>
            (isl (fst (getDebugConfigurationFromCache h cache target platform (Some gdb) None log))
               \<longleftrightarrow> execute h (gdb_debugger_path h (DEBUG_GEN h gdb) compiler_path) [''--version''] \<noteq> 0
                   \<and> execute h ''gdb'' [''--version''] \<noteq> 0)
            \<and> fst (getDebugConfigurationFromCache h cache target platform (Some gdb) None log) \<noteq> Inr None
            \<and> probed (snd (getDebugConfigurationFromCache h cache target platform (Some gdb) None log))
                = probed log @ derived_candidates h (Some gdb) compiler_path
                    @ gdb_debugger_path h (DEBUG_GEN h gdb) compiler_path
                    # (if execute h (gdb_debugger_path h (DEBUG_GEN h gdb) compiler_path) [''--version''] = 0
                       then [] else [''gdb'']))
       \<and> (\<not> search_literal (gdb_debugger_path h (DEBUG_GEN h gdb) compiler_path) ''gdb'' \<longrightarrow>
            getDebugConfigurationFromCache h cache target platform (Some gdb) None log
              = (Inr None,
                 log @ probes (derived_candidates h (Some gdb) compiler_path)
                   @ [Warning (localize h ''unable.to.determine.debugger.for.compiler'' [compiler_path])]))"
proof -
  let ?fp = "gdb_debugger_path h (DEBUG_GEN h gdb) compiler_path"
  let ?log = "log @ probes (derived_candidates h (Some gdb) compiler_path)"
  have eq: "getDebugConfigurationFromCache h cache target platform (Some gdb) None log
      = generic_fallback h target (DEBUG_GEN h gdb) compiler_path ?log"
    using reaching_fallback [OF assms, of target platform log] by (simp add: debugger_name_def)
  show ?thesis
  proof (cases "search_literal ?fp ''gdb''")
    case True
    then have r: "getDebugConfigurationFromCache h cache target platform (Some gdb) None log
        = (map_sum id Some (fst (createGDBDebugConfiguration h ?fp target ?log)),
           snd (createGDBDebugConfiguration h ?fp target ?log))"
      unfolding eq by (simp add: generic_fallback_def Let_def)
    have "isl (fst (createGDBDebugConfiguration h ?fp target ?log))
        \<longleftrightarrow> execute h ?fp [''--version''] \<noteq> 0 \<and> execute h ''gdb'' [''--version''] \<noteq> 0"
      by (simp add: createGDBDebugConfiguration_def checkDebugger_def)
    moreover have "map_sum id Some (fst (createGDBDebugConfiguration h ?fp target ?log)) \<noteq> Inr None"
      by (cases "fst (createGDBDebugConfiguration h ?fp target ?log)") simp_all
    moreover have "isl (map_sum id Some x) = isl x" for x :: "error + VSCodeDebugConfiguration"
      by (cases x) simp_all
    ultimately show ?thesis
      using True unfolding r by (simp add: createGDB_log probed_append probed_probes)
  next
    case False
    then show ?thesis
      unfolding eq by (simp add: generic_fallback_def)
  qed
qed

text \<open>
  Compiler \<^verbatim>\<open>/usr/bin/clang++\<close>: without any debugger the resolver throws after probing
  \<^verbatim>\<open>/usr/bin/gdb\<close> twice (as derived candidate and as fallback path) and \<^verbatim>\<open>gdb\<close>; with a
  working bare command it returns a configuration.
\<close>

theorem gdb_falls_back_to_bare_command_witness:
  "isl (fst (getDebugConfigurationFromCache (posix_host [] [''/usr/bin/clang++''])
         (cache_of [(''CMAKE_CXX_COMPILER'', ''/usr/bin/clang++'')]) hello ''linux'' (Some gdb) None []))
   \<and> probed (snd (getDebugConfigurationFromCache (posix_host [] [''/usr/bin/clang++''])
         (cache_of [(''CMAKE_CXX_COMPILER'', ''/usr/bin/clang++'')]) hello ''linux'' (Some gdb) None []))
       = [''/usr/bin/gdb'', ''/usr/bin/gdb'', ''gdb'']
   \<and> \<not> isl (fst (getDebugConfigurationFromCache (posix_host [''gdb''] [''/usr/bin/clang++''])
         (cache_of [(''CMAKE_CXX_COMPILER'', ''/usr/bin/clang++'')]) hello ''linux'' (Some gdb) None []))"
proof -
  let ?cache = "cache_of [(''CMAKE_CXX_COMPILER'', ''/usr/bin/clang++'')]"
  have linker: "\<not> is_msvc_linker ?cache"
    by (simp add: is_msvc_linker_def cache_of_def)
  have compiler: "searchForCompilerPathInCache ?cache = Some ''/usr/bin/clang++''"
    by (simp add: searchForCompilerPathInCache_def cache_of_def)
  have cl: "\<not> endsWith ''/usr/bin/clang++'' ''cl.exe''"
    by (simp add: endsWith_def)
  have derived: "derived_candidates (posix_host ws [''/usr/bin/clang++'']) (Some gdb) ''/usr/bin/clang++''
      = [''/usr/bin/gdb'']" for ws
    unfolding derived_candidates_def by code_simp
  have path: "gdb_debugger_path (posix_host ws [''/usr/bin/clang++'']) (DEBUG_GEN (posix_host ws [''/usr/bin/clang++'']) gdb) ''/usr/bin/clang++''
      = ''/usr/bin/gdb''" for ws
    unfolding gdb_debugger_path_def posix_host_def by code_simp
  have fail: "\<forall>c \<in> set (derived_candidates (posix_host ws [''/usr/bin/clang++'']) (Some gdb) ''/usr/bin/clang++'').
      execute (posix_host ws [''/usr/bin/clang++'']) c [''--version''] \<noteq> 0"
    if "''/usr/bin/gdb'' \<notin> set ws" for ws
    unfolding derived using that by (simp add: posix_host_def)
  have 1: "''/usr/bin/gdb'' \<notin> set []" and 2: "''/usr/bin/gdb'' \<notin> set [''gdb'']"
    by simp_all
  from gdb_falls_back_to_bare_command [OF linker compiler cl fail [OF 1], of hello "''linux''" "[]"]
  have a: "isl (fst (getDebugConfigurationFromCache (posix_host [] [''/usr/bin/clang++''])
         ?cache hello ''linux'' (Some gdb) None []))
   \<and> probed (snd (getDebugConfigurationFromCache (posix_host [] [''/usr/bin/clang++''])
         ?cache hello ''linux'' (Some gdb) None []))
       = [''/usr/bin/gdb'', ''/usr/bin/gdb'', ''gdb'']"
    unfolding derived path by (simp add: posix_host_def)
  from gdb_falls_back_to_bare_command [OF linker compiler cl fail [OF 2], of hello "''linux''" "[]"]
  have b: "\<not> isl (fst (getDebugConfigurationFromCache (posix_host [''gdb''] [''/usr/bin/clang++''])
         ?cache hello ''linux'' (Some gdb) None []))"
    unfolding derived path by (simp add: posix_host_def)
  from a b show ?thesis by simp
qed

section \<open>What the resolver runs and returns, for every input\<close>

text \<open>
  Each step either goes on, with at most its own failed probes added to the log, or
  returns a configuration of its family whose debugger path has answered the probe.
\<close>

lemma validated_iff:
  "validated h fam x \<longleftrightarrow>
     (\<exists>cfg p. x = Inr (Some cfg) \<and> MIMode cfg = Some fam \<and> miDebuggerPath cfg = Some p
        \<and> execute h p [''--version''] = 0)"
  by (auto simp add: validated_def split: sum.splits option.splits)

lemma returned_createLLDB:
  assumes "execute h p [''--version''] = 0"
  shows "\<exists>cfg. returned (createLLDBDebugConfiguration h p t log)
            = (Some (Inr (Some cfg)), log @ [Execute p [''--version'']])
          \<and> MIMode cfg = Some lldb \<and> miDebuggerPath cfg = Some p"
  using assms by (simp add: returned_def createLLDBDebugConfiguration_def checkDebugger_def)

lemma returned_createGDB:
  assumes "execute h p [''--version''] = 0"
  shows "\<exists>cfg. returned (createGDBDebugConfiguration h p t log)
            = (Some (Inr (Some cfg)), log @ [Execute p [''--version'']])
          \<and> MIMode cfg = Some gdb \<and> miDebuggerPath cfg = Some p"
  using assms by (simp add: returned_def createGDBDebugConfiguration_def checkDebugger_def)

lemma lldb_step_D:
  assumes "lldb_step h t m cp log = (r, log')"
  shows "set (probed log') \<subseteq> set (probed log) \<union> {replace cp clang_compiler_regex ''lldb''}"
    and "r = Some x \<Longrightarrow> validated h lldb x"
proof -
  let ?l = "replace cp clang_compiler_regex ''lldb''"
  consider (skip) "r = None" "log' = log"
    | (fail) "r = None" "log' = log @ [Execute ?l [''--version'']]"
    | (ok) "execute h ?l [''--version''] = 0"
        "(r, log') = returned (createLLDBDebugConfiguration h ?l t (log @ [Execute ?l [''--version'']]))"
    using assms by (auto simp add: lldb_step_cases Let_def split: if_splits)
  then have "set (probed log') \<subseteq> set (probed log) \<union> {?l} \<and> (\<forall>x. r = Some x \<longrightarrow> validated h lldb x)"
  proof cases
    case skip then show ?thesis by auto
  next
    case fail then show ?thesis by (auto simp add: probed_append)
  next
    case ok
    from returned_createLLDB [OF ok(1), of t "log @ [Execute ?l [''--version'']]"] ok(2) ok(1)
    show ?thesis by (auto simp add: probed_append validated_iff)
  qed
  then show "set (probed log') \<subseteq> set (probed log) \<union> {?l}"
    and "r = Some x \<Longrightarrow> validated h lldb x" by blast+
qed

lemma gdb_step_D:
  assumes "gdb_step h t m cp log = (r, log')"
  shows "set (probed log') \<subseteq> set (probed log) \<union> {replace cp clang_compiler_regex ''gdb''}"
    and "r = Some x \<Longrightarrow> validated h gdb x"
proof -
  let ?g = "replace cp clang_compiler_regex ''gdb''"
  consider (skip) "r = None" "log' = log"
    | (fail) "r = None" "log' = log @ [Execute ?g [''--version'']]"
    | (ok) "execute h ?g [''--version''] = 0"
        "(r, log') = returned (createGDBDebugConfiguration h ?g t (log @ [Execute ?g [''--version'']]))"
    using assms by (auto simp add: gdb_step_cases Let_def split: if_splits)
  then have "set (probed log') \<subseteq> set (probed log) \<union> {?g} \<and> (\<forall>x. r = Some x \<longrightarrow> validated h gdb x)"
  proof cases
    case skip then show ?thesis by auto
  next
    case fail then show ?thesis by (auto simp add: probed_append)
  next
    case ok
    from returned_createGDB [OF ok(1), of t "log @ [Execute ?g [''--version'']]"] ok(2) ok(1)
    show ?thesis by (auto simp add: probed_append validated_iff)
  qed
  then show "set (probed log') \<subseteq> set (probed log) \<union> {?g}"
    and "r = Some x \<Longrightarrow> validated h gdb x" by blast+
qed

lemma lldb_mi_step_D:
  assumes "lldb_mi_step h t m cp log = (r, log')"
  shows "set (probed log') \<subseteq> set (probed log) \<union> {replace cp clang_compiler_regex ''lldb-mi''}
           \<union> cpptools_lldb_mi h"
    and "r = Some x \<Longrightarrow> validated h lldb x"
proof -
  let ?mi = "replace cp clang_compiler_regex ''lldb-mi''"
  consider (skip) "r = None" "log' = log"
    | (fail) "r = None" "log' = log @ [Execute ?mi [''--version'']]"
    | (ok) "execute h ?mi [''--version''] = 0"
        "(r, log') = returned (createLLDBDebugConfiguration h ?mi t (log @ [Execute ?mi [''--version'']]))"
    | (fail2) p where "p \<in> cpptools_lldb_mi h" "r = None"
        "log' = log @ [Execute ?mi [''--version''], Execute p [''--version'']]"
    | (ok2) p where "p \<in> cpptools_lldb_mi h" "execute h p [''--version''] = 0"
        "(r, log') = returned (createLLDBDebugConfiguration h p t
                        (log @ [Execute ?mi [''--version''], Execute p [''--version'']]))"
    using assms
    by (auto simp add: lldb_mi_step_cases cpptools_lldb_mi_def Let_def split: if_splits option.splits)
  then have "set (probed log') \<subseteq> set (probed log) \<union> {?mi} \<union> cpptools_lldb_mi h
      \<and> (\<forall>x. r = Some x \<longrightarrow> validated h lldb x)"
  proof cases
    case skip then show ?thesis by auto
  next
    case fail then show ?thesis by (auto simp add: probed_append)
  next
    case ok
    from returned_createLLDB [OF ok(1), of t "log @ [Execute ?mi [''--version'']]"] ok(2) ok(1)
    show ?thesis by (auto simp add: probed_append validated_iff)
  next
    case fail2 then show ?thesis by (auto simp add: probed_append)
  next
    case ok2
    from returned_createLLDB [OF ok2(2), of t "log @ [Execute ?mi [''--version''], Execute p [''--version'']]"]
      ok2(1,2,3)
    show ?thesis by (auto simp add: probed_append validated_iff)
  qed
  then show "set (probed log') \<subseteq> set (probed log) \<union> {?mi} \<union> cpptools_lldb_mi h"
    and "r = Some x \<Longrightarrow> validated h lldb x" by blast+
qed


lemma lldb_mi_step_mode:
  assumes "lldb_mi_step h t m cp log = (r, log')"
  shows "set (probed log') \<subseteq> set (probed log)
           \<union> (if m \<noteq> Some gdb
              then insert (replace cp clang_compiler_regex ''lldb-mi'') (cpptools_lldb_mi h) else {})"
    and "r = Some x \<Longrightarrow> validated h lldb x \<and> m \<noteq> Some gdb"
proof -
  show "set (probed log') \<subseteq> set (probed log)
           \<union> (if m \<noteq> Some gdb
              then insert (replace cp clang_compiler_regex ''lldb-mi'') (cpptools_lldb_mi h) else {})"
  proof (cases "m = Some gdb")
    case True
    with assms show ?thesis by (simp add: lldb_mi_step_gdb)
  next
    case False
    with lldb_mi_step_D(1) [OF assms] show ?thesis by auto
  qed
  show "validated h lldb x \<and> m \<noteq> Some gdb" if "r = Some x"
  proof (cases "m = Some gdb")
    case True
    with assms that show ?thesis by (simp add: lldb_mi_step_gdb)
  next
    case False
    with lldb_mi_step_D(2) [OF assms that] show ?thesis by simp
  qed
qed

lemma gdb_step_mode:
  assumes "gdb_step h t m cp log = (r, log')"
  shows "set (probed log') \<subseteq> set (probed log)
           \<union> (if m \<noteq> Some lldb then {replace cp clang_compiler_regex ''gdb''} else {})"
    and "r = Some x \<Longrightarrow> validated h gdb x \<and> m \<noteq> Some lldb"
proof -
  show "set (probed log') \<subseteq> set (probed log)
           \<union> (if m \<noteq> Some lldb then {replace cp clang_compiler_regex ''gdb''} else {})"
  proof (cases "m = Some lldb")
    case True
    with assms show ?thesis by (simp add: gdb_step_lldb)
  next
    case False
    with gdb_step_D(1) [OF assms] show ?thesis by auto
  qed
  show "validated h gdb x \<and> m \<noteq> Some lldb" if "r = Some x"
  proof (cases "m = Some lldb")
    case True
    with assms that show ?thesis by (simp add: gdb_step_lldb)
  next
    case False
    with gdb_step_D(2) [OF assms that] show ?thesis by simp
  qed
qed

lemma lldb_step_mode:
  assumes "lldb_step h t m cp log = (r, log')"
  shows "set (probed log') \<subseteq> set (probed log)
           \<union> (if m \<noteq> Some gdb then {replace cp clang_compiler_regex ''lldb''} else {})"
    and "r = Some x \<Longrightarrow> validated h lldb x \<and> m \<noteq> Some gdb"
proof -
  show "set (probed log') \<subseteq> set (probed log)
           \<union> (if m \<noteq> Some gdb then {replace cp clang_compiler_regex ''lldb''} else {})"
  proof (cases "m = Some gdb")
    case True
    with assms show ?thesis by (simp add: lldb_step_gdb)
  next
    case False
    with lldb_step_D(1) [OF assms] show ?thesis by auto
  qed
  show "validated h lldb x \<and> m \<noteq> Some gdb" if "r = Some x"
  proof (cases "m = Some gdb")
    case True
    with assms that show ?thesis by (simp add: lldb_step_gdb)
  next
    case False
    with lldb_step_D(2) [OF assms that] show ?thesis by simp
  qed
qed

lemma createConfig_D:
  assumes "createConfig (DEBUG_GEN h fam) p t log = (y, log')"
  shows "set (probed log') \<subseteq> set (probed log) \<union> {p} \<union> (if fam = gdb then {''gdb''} else {})"
    and "y = Inr cfg \<Longrightarrow> validated h fam (Inr (Some cfg))"
proof -
  have l: "log' = snd (createConfig (DEBUG_GEN h fam) p t log)"
    and y: "y = fst (createConfig (DEBUG_GEN h fam) p t log)"
    using assms by simp_all
  show "set (probed log') \<subseteq> set (probed log) \<union> {p} \<union> (if fam = gdb then {''gdb''} else {})"
    unfolding l by (cases fam) (auto simp add: createGDB_log createLLDB_log probed_append)
  show "validated h fam (Inr (Some cfg))" if "y = Inr cfg"
  proof (cases fam)
    case lldb
    with that y have "fst (createLLDBDebugConfiguration h p t log) = Inr cfg" by simp
    from createLLDB_config [OF this] lldb show ?thesis by (simp add: validated_iff)
  next
    case gdb
    with that y have c: "fst (createGDBDebugConfiguration h p t log) = Inr cfg" by simp
    from createGDB_config(1) [OF c] createGDB_validated [OF c] gdb
    show ?thesis by (auto simp add: validated_iff)
  qed
qed




lemma generic_fallback_D:
  assumes "generic_fallback h t (DEBUG_GEN h fam) cp log = (x, log')"
  shows "set (probed log') \<subseteq> set (probed log) \<union> {gdb_debugger_path h (DEBUG_GEN h fam) cp}
           \<union> (if fam = gdb then {''gdb''} else {})"
    and "x = Inr (Some cfg) \<Longrightarrow> validated h fam x"
    and "x = Inr None \<Longrightarrow>
           Warning (localize h ''unable.to.determine.debugger.for.compiler'' [cp]) \<in> set log'"
proof -
  let ?fp = "gdb_debugger_path h (DEBUG_GEN h fam) cp"
  consider (build) y where "createConfig (DEBUG_GEN h fam) ?fp t log = (y, log')" "x = map_sum id Some y"
    | (null) "x = Inr None"
        "log' = log @ [Warning (localize h ''unable.to.determine.debugger.for.compiler'' [cp])]"
    using assms
    by (cases "createConfig (DEBUG_GEN h fam) ?fp t log")
      (auto simp add: generic_fallback_def Let_def split: if_splits)
  then have "set (probed log') \<subseteq> set (probed log) \<union> {?fp} \<union> (if fam = gdb then {''gdb''} else {})
      \<and> (\<forall>cfg. x = Inr (Some cfg) \<longrightarrow> validated h fam x)
      \<and> (x = Inr None \<longrightarrow>
           Warning (localize h ''unable.to.determine.debugger.for.compiler'' [cp]) \<in> set log')"
  proof cases
    case build
    have "validated h fam x" if "x = Inr (Some cfg)" for cfg
    proof -
      from that build(2) have "y = Inr cfg" by (cases y) simp_all
      from createConfig_D(2) [OF build(1) this] that show ?thesis by simp
    qed
    moreover have "x \<noteq> Inr None" using build(2) by (cases y) simp_all
    ultimately show ?thesis using createConfig_D(1) [OF build(1)] by blast
  next
    case null
    then show ?thesis by (auto simp add: probed_append)
  qed
  then show "set (probed log') \<subseteq> set (probed log) \<union> {?fp} \<union> (if fam = gdb then {''gdb''} else {})"
    and "x = Inr (Some cfg) \<Longrightarrow> validated h fam x"
    and "x = Inr None \<Longrightarrow>
           Warning (localize h ''unable.to.determine.debugger.for.compiler'' [cp]) \<in> set log'"
    by blast+
qed


lemma look_for_debugger_D:
  assumes "look_for_debugger h t m (DEBUG_GEN h fam) cp log = (x, log')"
    and fam: "m = Some gdb \<longrightarrow> fam = gdb" "m = Some lldb \<longrightarrow> fam = lldb"
  shows "set (probed log') \<subseteq> set (probed log) \<union> admitted h m fam cp"
    and "x = Inr (Some cfg) \<Longrightarrow>
           validated h lldb x \<and> m \<noteq> Some gdb \<or> validated h gdb x \<and> m \<noteq> Some lldb"
    and "x = Inr None \<Longrightarrow>
           Warning (localize h ''unable.to.determine.debugger.for.compiler'' [cp]) \<in> set log'"
proof -
  obtain r1 l1 where s1: "lldb_mi_step h t m cp log = (r1, l1)" by fastforce
  obtain r2 l2 where s2: "gdb_step h t m cp l1 = (r2, l2)" by fastforce
  obtain r3 l3 where s3: "lldb_step h t m cp l2 = (r3, l3)" by fastforce
  obtain x4 l4 where s4: "generic_fallback h t (DEBUG_GEN h fam) cp l3 = (x4, l4)" by fastforce
  note p1 = lldb_mi_step_mode(1) [OF s1] and p2 = gdb_step_mode(1) [OF s2]
    and p3 = lldb_step_mode(1) [OF s3] and p4 = generic_fallback_D(1) [OF s4]
  let ?A = "admitted h m fam cp"
  have a1: "(if m \<noteq> Some gdb
      then insert (replace cp clang_compiler_regex ''lldb-mi'') (cpptools_lldb_mi h) else {}) \<subseteq> ?A"
    and a2: "(if m \<noteq> Some lldb then {replace cp clang_compiler_regex ''gdb''} else {}) \<subseteq> ?A"
    and a3: "(if m \<noteq> Some gdb then {replace cp clang_compiler_regex ''lldb''} else {}) \<subseteq> ?A"
    and a4: "{gdb_debugger_path h (DEBUG_GEN h fam) cp} \<union> (if fam = gdb then {''gdb''} else {}) \<subseteq> ?A"
    unfolding admitted_def by auto
  have q1: "set (probed l1) \<subseteq> set (probed log) \<union> ?A" using p1 a1 by blast
  have q2: "set (probed l2) \<subseteq> set (probed log) \<union> ?A" using p2 q1 a2 by blast
  have q3: "set (probed l3) \<subseteq> set (probed log) \<union> ?A" using p3 q2 a3 by blast
  have q4: "set (probed l4) \<subseteq> set (probed log) \<union> ?A" using p4 q3 a4 by blast
  have v4: "validated h lldb x4 \<and> m \<noteq> Some gdb \<or> validated h gdb x4 \<and> m \<noteq> Some lldb"
    if "x4 = Inr (Some cfg)" for cfg
    using generic_fallback_D(2) [OF s4 that] fam by (cases fam) auto
  let ?P = "\<lambda>x log'. set (probed log') \<subseteq> set (probed log) \<union> admitted h m fam cp
      \<and> (\<forall>cfg. x = Inr (Some cfg) \<longrightarrow>
            validated h lldb x \<and> m \<noteq> Some gdb \<or> validated h gdb x \<and> m \<noteq> Some lldb)
      \<and> (x = Inr None \<longrightarrow>
            Warning (localize h ''unable.to.determine.debugger.for.compiler'' [cp]) \<in> set log')"
  have not_null: "y \<noteq> Inr None" if "validated h f y" for f y
    using that by (auto simp add: validated_iff)
  have "?P x log'"
  proof (cases r1)
    case (Some y)
    with assms(1) s1 have e: "x = y" "log' = l1" by (simp_all add: look_for_debugger_def)
    from lldb_mi_step_mode(2) [OF s1 Some] have v: "validated h lldb y \<and> m \<noteq> Some gdb" .
    with not_null [of lldb y] have "y \<noteq> Inr None" by simp
    with v q1 show ?thesis unfolding e by blast
  next
    case n1: None
    show ?thesis
    proof (cases r2)
      case (Some y)
      with assms(1) s1 s2 n1 have e: "x = y" "log' = l2" by (simp_all add: look_for_debugger_def)
      from gdb_step_mode(2) [OF s2 Some] have v: "validated h gdb y \<and> m \<noteq> Some lldb" .
      with not_null [of gdb y] have "y \<noteq> Inr None" by simp
      with v q2 show ?thesis unfolding e by blast
    next
      case n2: None
      show ?thesis
      proof (cases r3)
        case (Some y)
        with assms(1) s1 s2 s3 n1 n2 have e: "x = y" "log' = l3"
          by (simp_all add: look_for_debugger_def)
        from lldb_step_mode(2) [OF s3 Some] have v: "validated h lldb y \<and> m \<noteq> Some gdb" .
        with not_null [of lldb y] have "y \<noteq> Inr None" by simp
        with v q3 show ?thesis unfolding e by blast
      next
        case n3: None
        with assms(1) s1 s2 s3 s4 n1 n2 have e: "x = x4" "log' = l4"
          by (simp_all add: look_for_debugger_def)
        from q4 v4 generic_fallback_D(3) [OF s4] show ?thesis unfolding e by blast
      qed
    qed
  qed
  then show "set (probed log') \<subseteq> set (probed log) \<union> admitted h m fam cp"
    and "x = Inr (Some cfg) \<Longrightarrow>
           validated h lldb x \<and> m \<noteq> Some gdb \<or> validated h gdb x \<and> m \<noteq> Some lldb"
    and "x = Inr None \<Longrightarrow>
           Warning (localize h ''unable.to.determine.debugger.for.compiler'' [cp]) \<in> set log'"
    by blast+
qed

lemma resolver_D:
  assumes R: "getDebugConfigurationFromCache h cache t platform m ovr log = (x, log')"
  shows "set (probed log') \<subseteq> set (probed log) \<union> set_option ovr
           \<union> (if debugger_name platform m = gdb then {''gdb''} else {})
           \<union> (case searchForCompilerPathInCache cache of
                None \<Rightarrow> {}
              | Some cp \<Rightarrow> admitted h m (debugger_name platform m) cp)"
    and "x = Inr (Some cfg) \<Longrightarrow>
           cfg = createMSVCDebugConfiguration h t
           \<or> validated h lldb x \<and> m \<noteq> Some gdb \<or> validated h gdb x \<and> m \<noteq> Some lldb"
    and "x = Inr None \<Longrightarrow>
           (case searchForCompilerPathInCache cache of
              None \<Rightarrow> False
            | Some cp \<Rightarrow>
                Warning (localize h ''unable.to.determine.debugger.for.compiler'' [cp]) \<in> set log')"
proof -
  let ?fam = "debugger_name platform m"
  let ?S = "set (probed log) \<union> set_option ovr \<union> (if ?fam = gdb then {''gdb''} else {})
           \<union> (case searchForCompilerPathInCache cache of
                None \<Rightarrow> {}
              | Some cp \<Rightarrow> admitted h m ?fam cp)"
  let ?C = "\<lambda>cfg. cfg = createMSVCDebugConfiguration h t
           \<or> validated h lldb x \<and> m \<noteq> Some gdb \<or> validated h gdb x \<and> m \<noteq> Some lldb"
  let ?W = "case searchForCompilerPathInCache cache of
              None \<Rightarrow> False
            | Some cp \<Rightarrow>
                Warning (localize h ''unable.to.determine.debugger.for.compiler'' [cp]) \<in> set log'"
  have fam: "m = Some gdb \<longrightarrow> ?fam = gdb" "m = Some lldb \<longrightarrow> ?fam = lldb"
    by (simp_all add: debugger_name_def)
  have goal: "set (probed log') \<subseteq> ?S \<and> (\<forall>cfg. x = Inr (Some cfg) \<longrightarrow> ?C cfg) \<and> (x = Inr None \<longrightarrow> ?W)"
  proof (cases "is_msvc_linker cache")
    case True
    with R have "x = Inr (Some (createMSVCDebugConfiguration h t))" "log' = log"
      by (simp_all add: getDebugConfigurationFromCache_def)
    then show ?thesis by auto
  next
    case linker: False
    show ?thesis
    proof (cases "\<exists>p. ovr = Some p \<and> p \<noteq> [] \<and> path_isAbsolute h p \<and> fs_exists h p")
      case True
      then obtain p where p: "ovr = Some p" "p \<noteq> []" "path_isAbsolute h p \<and> fs_exists h p"
        by blast
      obtain y l where c: "createConfig (DEBUG_GEN h ?fam) p t log = (y, l)" by fastforce
      with R linker p have e: "x = map_sum id Some y" "log' = l"
        by (simp_all add: getDebugConfigurationFromCache_def returned_def)
      have "set (probed log') \<subseteq> ?S"
        using createConfig_D(1) [OF c] p(1) unfolding e by auto
      moreover have "?C cfg" if "x = Inr (Some cfg)" for cfg
      proof -
        from that e(1) have "y = Inr cfg" by (cases y) simp_all
        from createConfig_D(2) [OF c this] that fam show ?thesis by (cases ?fam) auto
      qed
      moreover have "x \<noteq> Inr None" using e(1) by (cases y) simp_all
      ultimately show ?thesis by blast
    next
      case False
      define log1 where "log1 =
        (case ovr of
           None \<Rightarrow> log
         | Some p \<Rightarrow>
             if p = [] then log
             else log @ [Warning (localize h ''invalid.miDebuggerPath.override''
                                    [''miDebuggerPath'', ''cmake.debugConfig'', p])])"
      have l1: "probed log1 = probed log"
        by (simp add: log1_def probed_append split: option.splits)
      have eq: "(x, log') =
        (case searchForCompilerPathInCache cache of
           None \<Rightarrow> (Inl (Error (localize h ''no.compiler.found.in.cache'' [])), log1)
         | Some cp \<Rightarrow>
             if endsWith cp ''cl.exe''
             then (Inr (Some (createMSVCDebugConfiguration h t)), log1)
             else look_for_debugger h t m (DEBUG_GEN h ?fam) cp log1)"
        using R linker False
        by (auto simp add: getDebugConfigurationFromCache_def log1_def split: option.splits)
      show ?thesis
      proof (cases "searchForCompilerPathInCache cache")
        case None
        with eq have "x = Inl (Error (localize h ''no.compiler.found.in.cache'' []))" "log' = log1"
          by simp_all
        with l1 show ?thesis by auto
      next
        case (Some cp)
        show ?thesis
        proof (cases "endsWith cp ''cl.exe''")
          case True
          with eq Some have "x = Inr (Some (createMSVCDebugConfiguration h t))" "log' = log1"
            by simp_all
          with l1 show ?thesis by auto
        next
          case False
          with eq Some have look: "look_for_debugger h t m (DEBUG_GEN h ?fam) cp log1 = (x, log')"
            by simp
          note d = look_for_debugger_D [OF look fam]
          have "set (probed log') \<subseteq> ?S"
            using d(1) l1 Some by auto
          moreover have "?C cfg" if "x = Inr (Some cfg)" for cfg
            using d(2) [OF that] by blast
          moreover have "?W" if "x = Inr None"
            using d(3) [OF that] Some by simp
          ultimately show ?thesis by blast
        qed
      qed
    qed
  qed
  then show "set (probed log') \<subseteq> ?S"
    and "x = Inr (Some cfg) \<Longrightarrow> ?C cfg"
    and "x = Inr None \<Longrightarrow> ?W"
    by blast+
qed

section \<open>The mode override\<close>

text \<open>
  Claim C3 says that with \<^verbatim>\<open>gdb\<close> requested, a working \<^verbatim>\<open>lldb\<close> and no \<^verbatim>\<open>gdb\<close> anywhere,
  the result is \<^verbatim>\<open>null\<close> with a warning. For the compiler \<^verbatim>\<open>/usr/bin/g++\<close> the generic
  fallback gives \<^verbatim>\<open>/usr/bin/gdb\<close>, the GDB builder finds neither it nor the bare command,
  and the resolver throws; no warning is logged.
\<close>

theorem requested_gdb_missing_is_fatal:
  "execute (posix_host [''/usr/bin/lldb'', ''lldb''] [''/usr/bin/g++'', ''/usr/bin/lldb''])
       ''/usr/bin/lldb'' [''--version''] = 0
   \<and> getDebugConfigurationFromCache
       (posix_host [''/usr/bin/lldb'', ''lldb''] [''/usr/bin/g++'', ''/usr/bin/lldb''])
       (cache_of [(''CMAKE_CXX_COMPILER'', ''/usr/bin/g++'')]) hello ''linux'' (Some gdb) None []
     = (Inl (Error ''gdb.not.found''),
        [Execute ''/usr/bin/gdb'' [''--version''], Execute ''gdb'' [''--version'']])"
  by code_simp

text \<open>
  Claim C3, amended. With \<^verbatim>\<open>gdb\<close> requested, every command the resolver runs is the path
  override, the \<^verbatim>\<open>gdb\<close> derivation of the compiler path, the path of the generic fallback
  for \<^verbatim>\<open>gdb\<close> or the bare command \<^verbatim>\<open>gdb\<close>. A configuration that is returned never has
  MI mode \<^verbatim>\<open>lldb\<close>: it is the MSVC configuration or a \<^verbatim>\<open>gdb\<close> configuration whose
  debugger path answers the probe; a \<^verbatim>\<open>null\<close> result comes with the warning that names
  the compiler path. In particular, for a toolchain that is not MSVC, without path
  override and on a machine where no command whose path contains \<^verbatim>\<open>gdb\<close> answers the
  probe (whatever \<^verbatim>\<open>lldb\<close> there is), the outcome is exactly this: when the path of the
  generic fallback does not contain \<^verbatim>\<open>gdb\<close>, the result is \<^verbatim>\<open>null\<close> and the warning is
  logged after the failed probes of the derived candidates; when it contains \<^verbatim>\<open>gdb\<close>,
  the resolver probes it and the bare command \<^verbatim>\<open>gdb\<close> and throws. Symmetrically, with
  \<^verbatim>\<open>lldb\<close> requested the commands are the path override, the \<^verbatim>\<open>lldb-mi\<close> derivation, the
  CppTools \<^verbatim>\<open>lldb-mi\<close>, the \<^verbatim>\<open>lldb\<close> derivation and the path of the generic fallback for
  \<^verbatim>\<open>lldb\<close>, no configuration with MI mode \<^verbatim>\<open>gdb\<close> is returned, and a \<^verbatim>\<open>null\<close> result
  comes with the warning.
\<close>

theorem mode_override_suppresses_other_family:
  "set (probed (snd (getDebugConfigurationFromCache h cache target platform (Some gdb) ovr log)))
     \<subseteq> set (probed log) \<union> set_option ovr \<union> {''gdb''}
         \<union> (case searchForCompilerPathInCache cache of
              None \<Rightarrow> {}
            | Some cp \<Rightarrow> {replace cp clang_compiler_regex ''gdb'',
                          gdb_debugger_path h (DEBUG_GEN h gdb) cp})
   \<and> (\<forall>cfg. fst (getDebugConfigurationFromCache h cache target platform (Some gdb) ovr log)
                = Inr (Some cfg)
          \<longrightarrow> MIMode cfg \<noteq> Some lldb
              \<and> (cfg = createMSVCDebugConfiguration h target \<or> validated h gdb (Inr (Some cfg))))
   \<and> (fst (getDebugConfigurationFromCache h cache target platform (Some gdb) ovr log) = Inr None
          \<longrightarrow> (\<exists>cp. searchForCompilerPathInCache cache = Some cp
                \<and> Warning (localize h ''unable.to.determine.debugger.for.compiler'' [cp])
                    \<in> set (snd (getDebugConfigurationFromCache h cache target platform (Some gdb) ovr log))))
   \<and> set (probed (snd (getDebugConfigurationFromCache h cache target platform (Some lldb) ovr log)))
     \<subseteq> set (probed log) \<union> set_option ovr \<union> cpptools_lldb_mi h
         \<union> (case searchForCompilerPathInCache cache of
              None \<Rightarrow> {}
            | Some cp \<Rightarrow> {replace cp clang_compiler_regex ''lldb-mi'',
                          replace cp clang_compiler_regex ''lldb'',
                          gdb_debugger_path h (DEBUG_GEN h lldb) cp})
   \<and> (\<forall>cfg. fst (getDebugConfigurationFromCache h cache target platform (Some lldb) ovr log)
                = Inr (Some cfg)
          \<longrightarrow> MIMode cfg \<noteq> Some gdb
              \<and> (cfg = createMSVCDebugConfiguration h target \<or> validated h lldb (Inr (Some cfg))))
   \<and> (fst (getDebugConfigurationFromCache h cache target platform (Some lldb) ovr log) = Inr None
          \<longrightarrow> (\<exists>cp. searchForCompilerPathInCache cache = Some cp
                \<and> Warning (localize h ''unable.to.determine.debugger.for.compiler'' [cp])
                    \<in> set (snd (getDebugConfigurationFromCache h cache target platform (Some lldb) ovr log))))
   \<and> (\<forall>cp. \<not> is_msvc_linker cache \<and> searchForCompilerPathInCache cache = Some cp
            \<and> \<not> endsWith cp ''cl.exe''
            \<and> (\<forall>p. search_literal p ''gdb'' \<longrightarrow> execute h p [''--version''] \<noteq> 0)
          \<longrightarrow> getDebugConfigurationFromCache h cache target platform (Some gdb) None log
              = (if search_literal (gdb_debugger_path h (DEBUG_GEN h gdb) cp) ''gdb''
                 then (Inl (Error (localize h ''gdb.not.found'' [''gdb''])),
                       log @ probes (derived_candidates h (Some gdb) cp)
                         @ [Execute (gdb_debugger_path h (DEBUG_GEN h gdb) cp) [''--version''],
                            Execute ''gdb'' [''--version'']])
                 else (Inr None,
                       log @ probes (derived_candidates h (Some gdb) cp)
                         @ [Warning (localize h ''unable.to.determine.debugger.for.compiler'' [cp])])))"
proof -
  let ?G = "getDebugConfigurationFromCache h cache target platform (Some gdb) ovr log"
  let ?L = "getDebugConfigurationFromCache h cache target platform (Some lldb) ovr log"
  have g: "?G = (fst ?G, snd ?G)" and l: "?L = (fst ?L, snd ?L)" by simp_all
  have msvc: "MIMode (createMSVCDebugConfiguration h target) = None"
    by (simp add: createMSVCDebugConfiguration_def)
  have g1: "set (probed (snd ?G))
     \<subseteq> set (probed log) \<union> set_option ovr \<union> {''gdb''}
         \<union> (case searchForCompilerPathInCache cache of
              None \<Rightarrow> {}
            | Some cp \<Rightarrow> {replace cp clang_compiler_regex ''gdb'',
                          gdb_debugger_path h (DEBUG_GEN h gdb) cp})"
    using resolver_D(1) [OF g]
    by (auto simp add: debugger_name_def admitted_def split: option.splits)
  have g2: "MIMode cfg \<noteq> Some lldb
      \<and> (cfg = createMSVCDebugConfiguration h target \<or> validated h gdb (Inr (Some cfg)))"
    if "fst ?G = Inr (Some cfg)" for cfg
    using resolver_D(2) [OF g that] that msvc by (auto simp add: validated_iff)
  have g3: "\<exists>cp. searchForCompilerPathInCache cache = Some cp
      \<and> Warning (localize h ''unable.to.determine.debugger.for.compiler'' [cp]) \<in> set (snd ?G)"
    if "fst ?G = Inr None"
    using resolver_D(3) [OF g that] by (auto split: option.splits)
  have l1: "set (probed (snd ?L))
     \<subseteq> set (probed log) \<union> set_option ovr \<union> cpptools_lldb_mi h
         \<union> (case searchForCompilerPathInCache cache of
              None \<Rightarrow> {}
            | Some cp \<Rightarrow> {replace cp clang_compiler_regex ''lldb-mi'',
                          replace cp clang_compiler_regex ''lldb'',
                          gdb_debugger_path h (DEBUG_GEN h lldb) cp})"
    using resolver_D(1) [OF l]
    by (auto simp add: debugger_name_def admitted_def split: option.splits)
  have l2: "MIMode cfg \<noteq> Some gdb
      \<and> (cfg = createMSVCDebugConfiguration h target \<or> validated h lldb (Inr (Some cfg)))"
    if "fst ?L = Inr (Some cfg)" for cfg
    using resolver_D(2) [OF l that] that msvc by (auto simp add: validated_iff)
  have l3: "\<exists>cp. searchForCompilerPathInCache cache = Some cp
      \<and> Warning (localize h ''unable.to.determine.debugger.for.compiler'' [cp]) \<in> set (snd ?L)"
    if "fst ?L = Inr None"
    using resolver_D(3) [OF l that] by (auto split: option.splits)
  have g4: "getDebugConfigurationFromCache h cache target platform (Some gdb) None log
      = (if search_literal (gdb_debugger_path h (DEBUG_GEN h gdb) cp) ''gdb''
         then (Inl (Error (localize h ''gdb.not.found'' [''gdb''])),
               log @ probes (derived_candidates h (Some gdb) cp)
                 @ [Execute (gdb_debugger_path h (DEBUG_GEN h gdb) cp) [''--version''],
                    Execute ''gdb'' [''--version'']])
         else (Inr None,
               log @ probes (derived_candidates h (Some gdb) cp)
                 @ [Warning (localize h ''unable.to.determine.debugger.for.compiler'' [cp])]))"
    if a: "\<not> is_msvc_linker cache \<and> searchForCompilerPathInCache cache = Some cp
            \<and> \<not> endsWith cp ''cl.exe''
            \<and> (\<forall>p. search_literal p ''gdb'' \<longrightarrow> execute h p [''--version''] \<noteq> 0)" for cp
  proof -
    let ?fp = "gdb_debugger_path h (DEBUG_GEN h gdb) cp"
    from a have none: "search_literal p ''gdb'' \<Longrightarrow> execute h p [''--version''] \<noteq> 0" for p
      by blast
    have derived: "\<forall>c \<in> set (derived_candidates h (Some gdb) cp). execute h c [''--version''] \<noteq> 0"
      using none by (auto simp add: derived_candidates_def Let_def split: if_splits)
    have bare: "execute h ''gdb'' [''--version''] \<noteq> 0"
      using none [of "''gdb''"] by simp
    from a derived
    have eq: "getDebugConfigurationFromCache h cache target platform (Some gdb) None log
        = generic_fallback h target (DEBUG_GEN h gdb) cp
            (log @ probes (derived_candidates h (Some gdb) cp))"
      using reaching_fallback [of cache cp h "Some gdb" target platform log]
      by (simp add: debugger_name_def)
    show ?thesis
    proof (cases "search_literal ?fp ''gdb''")
      case True
      with none [of ?fp] bare show ?thesis
        unfolding eq
        by (simp add: generic_fallback_def createGDBDebugConfiguration_def checkDebugger_def)
    next
      case False
      then show ?thesis
        unfolding eq by (simp add: generic_fallback_def)
    qed
  qed
  from g1 g2 g3 l1 l2 l3 g4 show ?thesis by blast
qed

text \<open>
  A working \<^verbatim>\<open>lldb\<close> and no \<^verbatim>\<open>gdb\<close>, with \<^verbatim>\<open>gdb\<close> requested: for the existing compiler
  \<^verbatim>\<open>/usr/bin/clang\<close> the result is \<^verbatim>\<open>null\<close> with the warning, for \<^verbatim>\<open>/usr/bin/clang++\<close> the
  generic fallback gives \<^verbatim>\<open>/usr/bin/gdb\<close> and the resolver throws.
\<close>

theorem mode_override_suppresses_other_family_witness:
  "fst (getDebugConfigurationFromCache
          (posix_host [''/usr/bin/lldb'', ''lldb''] [''/usr/bin/clang'', ''/usr/bin/lldb''])
          (cache_of [(''CMAKE_CXX_COMPILER'', ''/usr/bin/clang'')]) hello ''linux'' (Some gdb) None [])
     = Inr None
   \<and> set (probed (snd (getDebugConfigurationFromCache
          (posix_host [''/usr/bin/lldb'', ''lldb''] [''/usr/bin/clang'', ''/usr/bin/lldb''])
          (cache_of [(''CMAKE_CXX_COMPILER'', ''/usr/bin/clang'')]) hello ''linux'' (Some gdb) None [])))
       \<subseteq> {''gdb'', ''/usr/bin/gdb'', ''/usr/bin/clang''}
   \<and> Warning ''unable.to.determine.debugger.for.compiler''
       \<in> set (snd (getDebugConfigurationFromCache
          (posix_host [''/usr/bin/lldb'', ''lldb''] [''/usr/bin/clang'', ''/usr/bin/lldb''])
          (cache_of [(''CMAKE_CXX_COMPILER'', ''/usr/bin/clang'')]) hello ''linux'' (Some gdb) None []))
   \<and> set (probed (snd (getDebugConfigurationFromCache
          (posix_host [''/usr/bin/lldb'', ''lldb''] [''/usr/bin/clang'', ''/usr/bin/lldb''])
          (cache_of [(''CMAKE_CXX_COMPILER'', ''/usr/bin/clang'')]) hello ''linux'' (Some lldb) None [])))
       \<subseteq> {''/usr/bin/lldb-mi'', ''/usr/bin/lldb'', ''/usr/bin/clang''}
   \<and> getDebugConfigurationFromCache
          (posix_host [''/usr/bin/lldb'', ''lldb''] [''/usr/bin/clang'', ''/usr/bin/lldb''])
          (cache_of [(''CMAKE_CXX_COMPILER'', ''/usr/bin/clang'')]) hello ''linux'' (Some gdb) None []
       = (Inr None, [Execute ''/usr/bin/gdb'' [''--version''],
                     Warning ''unable.to.determine.debugger.for.compiler''])
   \<and> getDebugConfigurationFromCache
          (posix_host [''/usr/bin/lldb'', ''lldb''] [''/usr/bin/clang++'', ''/usr/bin/lldb''])
          (cache_of [(''CMAKE_CXX_COMPILER'', ''/usr/bin/clang++'')]) hello ''linux'' (Some gdb) None []
       = (Inl (Error ''gdb.not.found''),
          [Execute ''/usr/bin/gdb'' [''--version''], Execute ''/usr/bin/gdb'' [''--version''],
           Execute ''gdb'' [''--version'']])"
proof -
  let ?h = "posix_host [''/usr/bin/lldb'', ''lldb''] [''/usr/bin/clang'', ''/usr/bin/lldb'']"
  let ?cache = "cache_of [(''CMAKE_CXX_COMPILER'', ''/usr/bin/clang'')]"
  let ?G = "getDebugConfigurationFromCache ?h ?cache hello ''linux'' (Some gdb) None []"
  let ?L = "getDebugConfigurationFromCache ?h ?cache hello ''linux'' (Some lldb) None []"
  have compiler: "searchForCompilerPathInCache ?cache = Some ''/usr/bin/clang''"
    by (simp add: searchForCompilerPathInCache_def cache_of_def)
  have g: "replace ''/usr/bin/clang'' clang_compiler_regex ''gdb'' = ''/usr/bin/gdb''"
    and mi: "replace ''/usr/bin/clang'' clang_compiler_regex ''lldb-mi'' = ''/usr/bin/lldb-mi''"
    and l: "replace ''/usr/bin/clang'' clang_compiler_regex ''lldb'' = ''/usr/bin/lldb''"
    by code_simp+
  have fp: "gdb_debugger_path ?h (DEBUG_GEN ?h gdb) ''/usr/bin/clang'' = ''/usr/bin/clang''"
    "gdb_debugger_path ?h (DEBUG_GEN ?h lldb) ''/usr/bin/clang'' = ''/usr/bin/clang''"
    by code_simp+
  have cpptools: "cpptools_lldb_mi ?h = {}"
    by (simp add: cpptools_lldb_mi_def posix_host_def)
  have null: "fst ?G = Inr None"
    by code_simp
  note t = mode_override_suppresses_other_family [where h = ?h and cache = ?cache
      and target = hello and platform = "''linux''" and ovr = None and log = "[]"]
  from t [THEN conjunct1]
  have 1: "set (probed (snd ?G)) \<subseteq> {''gdb'', ''/usr/bin/gdb'', ''/usr/bin/clang''}"
    by (auto simp add: compiler g fp simp del: DEBUG_GEN.simps)
  from t [THEN conjunct2, THEN conjunct2, THEN conjunct1] null
  have 2: "Warning ''unable.to.determine.debugger.for.compiler'' \<in> set (snd ?G)"
    by (simp add: compiler posix_host_def)
  from t [THEN conjunct2, THEN conjunct2, THEN conjunct2, THEN conjunct1]
  have 3: "set (probed (snd ?L)) \<subseteq> {''/usr/bin/lldb-mi'', ''/usr/bin/lldb'', ''/usr/bin/clang''}"
    by (auto simp add: compiler mi l fp cpptools simp del: DEBUG_GEN.simps)
  have linker: "\<not> is_msvc_linker (cache_of [(''CMAKE_CXX_COMPILER'', c)])" for c
    by (simp add: is_msvc_linker_def cache_of_def)
  have no_gdb: "\<forall>p. search_literal p ''gdb'' \<longrightarrow>
      execute (posix_host [''/usr/bin/lldb'', ''lldb''] fs) p [''--version''] \<noteq> 0" for fs
    by (auto simp add: posix_host_def)
  have loc: "localize (posix_host ws fs) key arguments = key" for ws fs key arguments
    by (simp add: posix_host_def)
  have derived: "derived_candidates ?h (Some gdb) ''/usr/bin/clang'' = [''/usr/bin/gdb'']"
    by code_simp
  have cl: "\<not> endsWith ''/usr/bin/clang'' ''cl.exe''" "\<not> endsWith ''/usr/bin/clang++'' ''cl.exe''"
    by (simp_all add: endsWith_def)
  from t [THEN conjunct2, THEN conjunct2, THEN conjunct2, THEN conjunct2, THEN conjunct2,
      THEN conjunct2, THEN spec, of "''/usr/bin/clang''"] linker compiler cl(1) no_gdb
  have 4: "?G = (Inr None, [Execute ''/usr/bin/gdb'' [''--version''],
                     Warning ''unable.to.determine.debugger.for.compiler''])"
    by (simp add: fp derived probes_def loc del: DEBUG_GEN.simps)
  let ?k = "posix_host [''/usr/bin/lldb'', ''lldb''] [''/usr/bin/clang++'', ''/usr/bin/lldb'']"
  let ?cache2 = "cache_of [(''CMAKE_CXX_COMPILER'', ''/usr/bin/clang++'')]"
  have compiler2: "searchForCompilerPathInCache ?cache2 = Some ''/usr/bin/clang++''"
    by (simp add: searchForCompilerPathInCache_def cache_of_def)
  have derived2: "derived_candidates ?k (Some gdb) ''/usr/bin/clang++'' = [''/usr/bin/gdb'']"
    by code_simp
  have fp2: "gdb_debugger_path ?k (DEBUG_GEN ?k gdb) ''/usr/bin/clang++'' = ''/usr/bin/gdb''"
    by code_simp
  note u = mode_override_suppresses_other_family [where h = ?k and cache = ?cache2
      and target = hello and platform = "''linux''" and ovr = None and log = "[]"]
  from u [THEN conjunct2, THEN conjunct2, THEN conjunct2, THEN conjunct2, THEN conjunct2,
      THEN conjunct2, THEN spec, of "''/usr/bin/clang++''"] linker compiler2 cl(2) no_gdb
  have 5: "getDebugConfigurationFromCache ?k ?cache2 hello ''linux'' (Some gdb) None []
       = (Inl (Error ''gdb.not.found''),
          [Execute ''/usr/bin/gdb'' [''--version''], Execute ''/usr/bin/gdb'' [''--version''],
           Execute ''gdb'' [''--version'']])"
    by (simp add: fp2 derived2 probes_def loc del: DEBUG_GEN.simps)
  from null 1 2 3 4 5 show ?thesis by blast
qed

end
